theory Spec2Isabelle
  imports Main "HOL-Library.Char_ord" "HOL-Library.List_Lexorder" "HOL-Library.Multiset"
begin

section \<open>Strings\<close>

text \<open>
  A Python \<open>str\<close> is a sequence of code points. The model takes the code points below 256,
  one \<^typ>\<open>char\<close> each, so \<open>length\<close> counts what Python's \<open>len\<close> and the
  \<open>{7,20}\<close> of a pattern count. Among these code points \<open>str.isspace\<close>, the class
  \<open>\s\<close> of the \<open>re\<close> module and \<open>str.strip()\<close> agree on twelve whitespace characters:
  9 to 13, 28 to 31, 32, 133 and 160.
\<close>

definition whitespace :: "char list" where
  "whitespace = [CHR 0x09, CHR 0x0A, CHR 0x0B, CHR 0x0C, CHR 0x0D,
                 CHR 0x1C, CHR 0x1D, CHR 0x1E, CHR 0x1F, CHR '' '', CHR 0x85, CHR 0xA0]"

definition is_space :: "char \<Rightarrow> bool" where
  "is_space c = (c \<in> set whitespace)"

definition digits :: "char list" where
  "digits = ''0123456789''"

text \<open>\<open>s.strip()\<close>: leading and trailing whitespace removed.\<close>

definition strip :: "string \<Rightarrow> string" where
  "strip s = rev (dropWhile is_space (rev (dropWhile is_space s)))"

text \<open>
  ASCII case folding: what SQLite's \<open>LIKE\<close> applies, and what \<open>str.lower()\<close> does on the
  ASCII text of an engine message.
\<close>

definition lower :: "char \<Rightarrow> char" where
  "lower c = (case map_of (zip ''ABCDEFGHIJKLMNOPQRSTUVWXYZ'' ''abcdefghijklmnopqrstuvwxyz'') c of
                None \<Rightarrow> c | Some d \<Rightarrow> d)"

text \<open>\<open>sub in s\<close> on strings: \<open>sub\<close> occurs in \<open>s\<close> as a contiguous block.\<close>

fun starts_with :: "string \<Rightarrow> string \<Rightarrow> bool" where
  "starts_with [] s = True"
| "starts_with (p # ps) [] = False"
| "starts_with (p # ps) (c # cs) = (p = c \<and> starts_with ps cs)"

fun contains :: "string \<Rightarrow> string \<Rightarrow> bool" where
  "contains sub [] = (sub = [])"
| "contains sub (c # cs) = (starts_with sub (c # cs) \<or> contains sub cs)"

section \<open>Regular expressions\<close>

text \<open>
  The two patterns of the program use character classes, concatenation, \<open>+\<close> and a bounded
  repetition. A class is a list of characters, taken positively (\<open>[...]\<close>) or negatively
  (\<open>[^...]\<close>); \<open>\s\<close> inside a class stands for the whitespace characters.
\<close>

datatype cclass = In "char list" | NotIn "char list"

fun in_class :: "cclass \<Rightarrow> char \<Rightarrow> bool" where
  "in_class (In cs) c = (c \<in> set cs)"
| "in_class (NotIn cs) c = (c \<notin> set cs)"

datatype regex = Null | Empty | Sym cclass | Alt regex regex | Cat regex regex | Star regex

definition plus_re :: "regex \<Rightarrow> regex" where
  "plus_re r = Cat r (Star r)"

fun exactly :: "regex \<Rightarrow> nat \<Rightarrow> regex" where
  "exactly r 0 = Empty"
| "exactly r (Suc n) = Cat r (exactly r n)"

fun at_most :: "regex \<Rightarrow> nat \<Rightarrow> regex" where
  "at_most r 0 = Empty"
| "at_most r (Suc n) = Alt Empty (Cat r (at_most r n))"

text \<open>\<open>r{m,n}\<close>\<close>

definition between :: "regex \<Rightarrow> nat \<Rightarrow> nat \<Rightarrow> regex" where
  "between r m n = Cat (exactly r m) (at_most r (n - m))"

text \<open>Matching by derivatives: the pattern is advanced one character at a time.\<close>

fun nullable :: "regex \<Rightarrow> bool" where
  "nullable Null = False"
| "nullable Empty = True"
| "nullable (Sym k) = False"
| "nullable (Alt r s) = (nullable r \<or> nullable s)"
| "nullable (Cat r s) = (nullable r \<and> nullable s)"
| "nullable (Star r) = True"

fun deriv :: "char \<Rightarrow> regex \<Rightarrow> regex" where
  "deriv c Null = Null"
| "deriv c Empty = Null"
| "deriv c (Sym k) = (if in_class k c then Empty else Null)"
| "deriv c (Alt r s) = Alt (deriv c r) (deriv c s)"
| "deriv c (Cat r s) =
     (if nullable r then Alt (Cat (deriv c r) s) (deriv c s) else Cat (deriv c r) s)"
| "deriv c (Star r) = Cat (deriv c r) (Star r)"

text \<open>\<open>re.fullmatch(r, s)\<close>: the whole of \<open>s\<close> matches \<open>r\<close>.\<close>

fun fullmatch :: "regex \<Rightarrow> string \<Rightarrow> bool" where
  "fullmatch r [] = nullable r"
| "fullmatch r (c # cs) = fullmatch (deriv c r) cs"

text \<open>
  \<open>re.compile("^r$").match(s)\<close>: without the MULTILINE flag \<open>$\<close> matches at the end of the
  string and also just before a newline that ends the string.
\<close>

definition match_to_dollar :: "regex \<Rightarrow> string \<Rightarrow> bool" where
  "match_to_dollar r s =
     (fullmatch r s \<or> (s \<noteq> [] \<and> last s = CHR 0x0A \<and> fullmatch r (butlast s)))"

text \<open>\<open>EMAIL_RE = re.compile(r"^[^@\s]+@[^@\s]+\.[^@\s]+$")\<close>\<close>

definition EMAIL_RE :: regex where
  "EMAIL_RE =
     Cat (plus_re (Sym (NotIn (CHR ''@'' # whitespace))))
    (Cat (Sym (In ''@''))
    (Cat (plus_re (Sym (NotIn (CHR ''@'' # whitespace))))
    (Cat (Sym (In ''.''))
         (plus_re (Sym (NotIn (CHR ''@'' # whitespace)))))))"

text \<open>The phone pattern \<open>r"[0-9+\-\s]{7,20}"\<close>\<close>

definition PHONE_RE :: regex where
  "PHONE_RE = between (Sym (In (digits @ ''+-'' @ whitespace))) 7 20"

section \<open>Validation of a student form\<close>

text \<open>
  \<open>request.form\<close> and \<open>request.args\<close> map a field name to its value;
  \<open>form.get(k, "")\<close> gives the empty string for a missing field.
\<close>

type_synonym multidict = "string \<rightharpoonup> string"

definition get_or_empty :: "multidict \<Rightarrow> string \<Rightarrow> string" where
  "get_or_empty form k = (case form k of None \<Rightarrow> [] | Some v \<Rightarrow> v)"

text \<open>The dictionary \<open>data\<close> that \<open>validate_student\<close> returns, with its five keys.\<close>

record student_data =
  d_name :: string
  d_student_id :: string
  d_department :: string
  d_email :: string
  d_phone :: string

definition normalized :: "multidict \<Rightarrow> student_data" where
  "normalized form =
     \<lparr> d_name = strip (get_or_empty form ''name''),
       d_student_id = strip (get_or_empty form ''student_id''),
       d_department = strip (get_or_empty form ''department''),
       d_email = strip (get_or_empty form ''email''),
       d_phone = strip (get_or_empty form ''phone'') \<rparr>"

definition validate_student :: "multidict \<Rightarrow> string list \<times> student_data" where
  "validate_student form =
     (let data = normalized form;
          errors = (if d_name data = [] then [''Name is required.''] else [])
                 @ (if d_student_id data = [] then [''Student ID is required.''] else [])
                 @ (if d_department data = [] then [''Department is required.''] else [])
                 @ (if d_email data \<noteq> [] \<and> \<not> match_to_dollar EMAIL_RE (d_email data)
                    then [''Invalid email format.''] else [])
                 @ (if d_phone data \<noteq> [] \<and> \<not> fullmatch PHONE_RE (d_phone data)
                    then [''Phone should contain digits, spaces, '' @ [CHR 0x27] @ ''+''
                            @ [CHR 0x27] @ '' or '' @ [CHR 0x27] @ ''-'' @ [CHR 0x27] @ '' only.'']
                    else [])
      in (errors, data))"

section \<open>Storage\<close>

text \<open>
  The two tables of \<open>init_db\<close>. A table is the list of its rows in rowid order, which is
  the order of a table scan; \<open>email\<close> and \<open>phone\<close> may be NULL (\<open>None\<close>). Each table
  has the counter that \<open>AUTOINCREMENT\<close> keeps in \<open>sqlite_sequence\<close>.
\<close>

record user =
  u_id :: nat
  username :: string
  password_hash :: string
  u_created_at :: string

record student =
  s_id :: nat
  student_id :: string
  name :: string
  department :: string
  email :: "string option"
  phone :: "string option"
  created_at :: string

record database =
  users :: "user list"
  students :: "student list"
  users_seq :: nat
  students_seq :: nat

text \<open>
  An \<open>INTEGER PRIMARY KEY AUTOINCREMENT\<close> column gets one more than the largest rowid the
  table ever held.
\<close>

definition next_rowid :: "nat \<Rightarrow> nat list \<Rightarrow> nat" where
  "next_rowid seq ids = Suc (fold max ids seq)"

text \<open>
  What \<open>db.execute\<close> raises here: \<open>sqlite3.IntegrityError\<close> and
  \<open>sqlite3.OperationalError\<close> with the message of the engine, and \<open>OverflowError\<close> when
  an integer parameter does not fit the 64-bit signed INTEGER of SQLite.
\<close>

datatype sql_error = IntegrityError string | OperationalError string | OverflowError

definition unique_failed :: "string \<Rightarrow> sql_error" where
  "unique_failed column = IntegrityError (''UNIQUE constraint failed: '' @ column)"

definition sqlite_integer :: "nat \<Rightarrow> bool" where
  "sqlite_integer i = (i < 9223372036854775808)"

text \<open>Python's \<open>value or None\<close> on a string.\<close>

definition or_none :: "string \<Rightarrow> string option" where
  "or_none s = (if s = [] then None else Some s)"

text \<open>\<open>SELECT * FROM users WHERE username = ?\<close>, \<open>fetchone()\<close>\<close>

definition select_user :: "database \<Rightarrow> string \<Rightarrow> user option" where
  "select_user db uname = find (\<lambda>u. username u = uname) (users db)"

text \<open>\<open>SELECT * FROM students WHERE id = ?\<close>, \<open>fetchone()\<close>\<close>

definition select_student :: "database \<Rightarrow> nat \<Rightarrow> sql_error + student option" where
  "select_student db i =
     (if sqlite_integer i then Inr (find (\<lambda>r. s_id r = i) (students db)) else Inl OverflowError)"

text \<open>
  \<open>INSERT INTO students (student_id, name, department, email, phone, created_at)\<close>.
  A UNIQUE column rejects a value that another row holds; NULL never conflicts. When both
  unique columns conflict, SQLite checks the index of \<open>email\<close>, the later one of the table
  definition, first and names it in the message. Before that the new rowid is taken, and
  none is left once the largest INTEGER has been used. A rejected statement changes
  nothing.
\<close>

definition insert_student :: "database \<Rightarrow> student_data \<Rightarrow> string \<Rightarrow> sql_error + database" where
  "insert_student db data now =
     (let i = next_rowid (students_seq db) (map s_id (students db))
      in if \<not> sqlite_integer i then Inl (OperationalError ''database or disk is full'')
         else if d_email data \<noteq> [] \<and> (\<exists>r \<in> set (students db). email r = Some (d_email data))
         then Inl (unique_failed ''students.email'')
         else if \<exists>r \<in> set (students db). student_id r = d_student_id data
         then Inl (unique_failed ''students.student_id'')
         else Inr (db \<lparr> students := students db @
                         [\<lparr> s_id = i, student_id = d_student_id data, name = d_name data,
                            department = d_department data, email = or_none (d_email data),
                            phone = or_none (d_phone data), created_at = now \<rparr>],
                       students_seq := i \<rparr>))"

text \<open>
  \<open>UPDATE students SET student_id=?, name=?, department=?, email=?, phone=? WHERE id=?\<close>:
  the row with that id gets the five values; the unique columns are checked against the
  other rows.
\<close>

definition set_columns :: "student_data \<Rightarrow> student \<Rightarrow> student" where
  "set_columns data r =
     r \<lparr> student_id := d_student_id data, name := d_name data, department := d_department data,
         email := or_none (d_email data), phone := or_none (d_phone data) \<rparr>"

definition update_student :: "database \<Rightarrow> nat \<Rightarrow> student_data \<Rightarrow> sql_error + database" where
  "update_student db i data =
     (if \<not> sqlite_integer i then Inl OverflowError
      else if \<not> (\<exists>r \<in> set (students db). s_id r = i) then Inr db
      else if d_email data \<noteq> [] \<and>
              (\<exists>r \<in> set (students db). s_id r \<noteq> i \<and> email r = Some (d_email data))
      then Inl (unique_failed ''students.email'')
      else if \<exists>r \<in> set (students db). s_id r \<noteq> i \<and> student_id r = d_student_id data
      then Inl (unique_failed ''students.student_id'')
      else Inr (db \<lparr> students :=
                       map (\<lambda>r. if s_id r = i then set_columns data r else r) (students db) \<rparr>))"

text \<open>\<open>DELETE FROM students WHERE id = ?\<close>\<close>

definition delete_row :: "database \<Rightarrow> nat \<Rightarrow> sql_error + database" where
  "delete_row db i =
     (if sqlite_integer i then Inr (db \<lparr> students := filter (\<lambda>r. s_id r \<noteq> i) (students db) \<rparr>)
      else Inl OverflowError)"

text \<open>
  \<open>text LIKE pattern\<close> of SQLite: \<open>%\<close> stands for any run of characters, \<open>_\<close> for any one
  character, and every other character for itself up to ASCII case. No escape character
  is in force.
\<close>

fun like :: "string \<Rightarrow> string \<Rightarrow> bool" where
  "like [] s = (s = [])"
| "like (p # ps) [] = (p = CHR ''%'' \<and> like ps [])"
| "like (p # ps) (c # cs) =
     (if p = CHR ''%'' then like ps (c # cs) \<or> like (p # ps) cs
      else (p = CHR ''_'' \<or> lower p = lower c) \<and> like ps cs)"

text \<open>
  The engine reads the pattern and the text as C strings, each up to its first NUL
  character.
\<close>

definition c_string :: "string \<Rightarrow> string" where
  "c_string s = takeWhile (\<lambda>c. c \<noteq> CHR 0x00) s"

definition like_text :: "string \<Rightarrow> string \<Rightarrow> bool" where
  "like_text pat s = like (c_string pat) (c_string s)"

text \<open>A NULL operand makes \<open>LIKE\<close> NULL, which \<open>OR\<close> and \<open>WHERE\<close> treat as not true.\<close>

definition like_null :: "string \<Rightarrow> string option \<Rightarrow> bool" where
  "like_null pat v = (case v of None \<Rightarrow> False | Some s \<Rightarrow> like_text pat s)"

text \<open>
  The bytes of a string in UTF-8: one for a code point below 128, two for the others
  below 256. A pattern of more than 50000 bytes is refused when \<open>LIKE\<close> is evaluated,
  which happens once a row is scanned.
\<close>

definition utf8_length :: "string \<Rightarrow> nat" where
  "utf8_length s = length s + length (filter (\<lambda>c. (128 :: nat) \<le> of_char c) s)"

text \<open>
  \<open>ORDER BY created_at DESC\<close>: the text values compared character by character, largest
  first; rows with equal values stay in scan order.
\<close>

definition order_by_created_at_desc :: "student list \<Rightarrow> student list" where
  "order_by_created_at_desc rows = rev (sort_key created_at (rev rows))"

definition select_like :: "database \<Rightarrow> string \<Rightarrow> sql_error + student list" where
  "select_like db pat =
     (if students db \<noteq> [] \<and> 50000 < utf8_length pat
      then Inl (OperationalError ''LIKE or GLOB pattern too complex'')
      else Inr (order_by_created_at_desc
                  (filter (\<lambda>r. like_text pat (name r) \<or> like_text pat (student_id r)
                                \<or> like_text pat (department r) \<or> like_null pat (email r))
                          (students db))))"

definition select_all :: "database \<Rightarrow> student list" where
  "select_all db = order_by_created_at_desc (students db)"

text \<open>
  \<open>init_db\<close>: \<open>CREATE TABLE IF NOT EXISTS\<close> on a file without the tables (\<open>None\<close>) gives
  two empty tables and keeps the tables of a file that has them; then the default admin is
  added unless a user of that name exists. \<open>gen\<close> is \<open>generate_password_hash\<close> and
  \<open>now\<close> the value of \<open>datetime.utcnow().isoformat()\<close>.
\<close>

definition empty_db :: database where
  "empty_db = \<lparr> users = [], students = [], users_seq = 0, students_seq = 0 \<rparr>"

definition init_db :: "(string \<Rightarrow> string) \<Rightarrow> string \<Rightarrow> database option \<Rightarrow> database" where
  "init_db gen now file =
     (let db = (case file of None \<Rightarrow> empty_db | Some d \<Rightarrow> d)
      in case select_user db ''admin'' of
           Some u \<Rightarrow> db
         | None \<Rightarrow>
             (let i = next_rowid (users_seq db) (map u_id (users db))
              in db \<lparr> users := users db @
                        [\<lparr> u_id = i, username = ''admin'', password_hash = gen ''admin123'',
                           u_created_at = now \<rparr>],
                      users_seq := i \<rparr>))"

section \<open>Requests, sessions and responses\<close>

datatype http_method = GET | POST

record request =
  r_method :: http_method
  r_path :: string
  r_args :: multidict
  r_form :: multidict

text \<open>The session is a dictionary; the program stores an integer and strings in it.\<close>

datatype sval = SInt nat | SStr string

type_synonym session = "string \<rightharpoonup> sval"

text \<open>
  Where a redirect leads: \<open>url_for("login", next=...)\<close>, \<open>url_for("list_students")\<close>,
  \<open>url_for("view_student", id=...)\<close>, or the address a request gave in \<open>next\<close>.
\<close>

datatype location =
  Url_login "string option" | Url_list_students | Url_view_student nat | Location string

text \<open>The values handed to a template.\<close>

datatype ctxval =
  Rows "student list" | Row student | Text string | Data student_data | Empty_dict
  | Row_dict student

datatype response =
  Redirect location | Render string "(string \<times> ctxval) list" | Abort nat

text \<open>
  What a handler does: its response, the notices it flashes (message and category, in
  order), and the session and the database it leaves.
\<close>

record outcome =
  resp :: response
  flashed :: "(string \<times> string) list"
  session_after :: session
  db_after :: database

definition abort :: "nat \<Rightarrow> session \<Rightarrow> database \<Rightarrow> outcome" where
  "abort code sess db = \<lparr> resp = Abort code, flashed = [], session_after = sess, db_after = db \<rparr>"

text \<open>
  An exception that no handler catches: Flask answers 500. Nothing was committed, and
  nothing was flashed or put into the session before the statement that raised.
\<close>

definition server_error :: "session \<Rightarrow> database \<Rightarrow> outcome" where
  "server_error sess db = \<lparr> resp = Abort 500, flashed = [], session_after = sess, db_after = db \<rparr>"

type_synonym view = "request \<Rightarrow> session \<Rightarrow> database \<Rightarrow> outcome"

definition login_required :: "view \<Rightarrow> view" where
  "login_required v req sess db =
     (if sess ''user_id'' = None
      then \<lparr> resp = Redirect (Url_login (Some (r_path req))), flashed = [],
             session_after = sess, db_after = db \<rparr>
      else v req sess db)"

text \<open>
  \<open>token_from_form and token_from_form == session.get("_csrf_token")\<close>; the form value is
  \<open>None\<close> when the field is missing.
\<close>

definition validate_csrf :: "string option \<Rightarrow> session \<Rightarrow> bool" where
  "validate_csrf token_from_form sess =
     (case token_from_form of
        None \<Rightarrow> False
      | Some t \<Rightarrow> t \<noteq> [] \<and> sess ''_csrf_token'' = Some (SStr t))"

section \<open>Routes\<close>

text \<open>\<open>chk\<close> is \<open>check_password_hash\<close>.\<close>

definition login :: "(string \<Rightarrow> string \<Rightarrow> bool) \<Rightarrow> view" where
  "login chk req sess db =
     (if r_method req = POST then
        (let uname = strip (get_or_empty (r_form req) ''username'');
             password = get_or_empty (r_form req) ''password''
         in case select_user db uname of
              Some row \<Rightarrow>
                if chk (password_hash row) password
                then \<lparr> resp = Redirect (case r_args req ''next'' of
                                          None \<Rightarrow> Url_list_students
                                        | Some n \<Rightarrow> if n = [] then Url_list_students
                                                    else Location n),
                       flashed = [(''Welcome back!'', ''success'')],
                       session_after = [''user_id'' \<mapsto> SInt (u_id row),
                                        ''username'' \<mapsto> SStr (username row)],
                       db_after = db \<rparr>
                else \<lparr> resp = Render ''auth/login.html'' [],
                       flashed = [(''Invalid username or password.'', ''danger'')],
                       session_after = sess, db_after = db \<rparr>
            | None \<Rightarrow>
                \<lparr> resp = Render ''auth/login.html'' [],
                  flashed = [(''Invalid username or password.'', ''danger'')],
                  session_after = sess, db_after = db \<rparr>)
      else \<lparr> resp = Render ''auth/login.html'' [], flashed = [],
             session_after = sess, db_after = db \<rparr>)"

text \<open>
  A route accepts the methods of its \<open>methods=\<close> list, GET alone when it has none; the
  router answers any other method with 405 before the guard and the handler run.
\<close>

definition list_students_view :: view where
  "list_students_view req sess db =
     (let q = strip (get_or_empty (r_args req) ''q'')
      in case (if q \<noteq> [] then select_like db (''%'' @ q @ ''%'') else Inr (select_all db)) of
           Inl e \<Rightarrow> server_error sess db
         | Inr rows \<Rightarrow>
             \<lparr> resp = Render ''students/index.html'' [(''students'', Rows rows), (''q'', Text q)],
               flashed = [], session_after = sess, db_after = db \<rparr>)"

definition list_students :: view where
  "list_students req sess db =
     (if r_method req \<noteq> GET then abort 405 sess db
      else login_required list_students_view req sess db)"

text \<open>
  The notice for a rejected insert, chosen from the lower-cased message of the
  \<open>IntegrityError\<close>.
\<close>

definition create_error_notice :: "string \<Rightarrow> string" where
  "create_error_notice msg =
     (if contains ''students.student_id'' (map lower msg) then ''Student ID already exists.''
      else if contains ''students.email'' (map lower msg) then ''Email already exists.''
      else ''Database error while creating student.'')"

definition create_student_view :: "string \<Rightarrow> view" where
  "create_student_view now req sess db =
     (if r_method req = POST then
        if \<not> validate_csrf (r_form req ''csrf_token'') sess then abort 400 sess db
        else
          (let (errors, data) = validate_student (r_form req)
           in if errors \<noteq> []
              then \<lparr> resp = Render ''students/new.html'' [(''data'', Data data)],
                     flashed = map (\<lambda>e. (e, ''danger'')) errors,
                     session_after = sess, db_after = db \<rparr>
              else case insert_student db data now of
                     Inr db' \<Rightarrow>
                       \<lparr> resp = Redirect Url_list_students,
                         flashed = [(''Student added.'', ''success'')],
                         session_after = sess, db_after = db' \<rparr>
                   | Inl (IntegrityError msg) \<Rightarrow>
                       \<lparr> resp = Render ''students/new.html'' [(''data'', Empty_dict)],
                         flashed = [(create_error_notice msg, ''danger'')],
                         session_after = sess, db_after = db \<rparr>
                   | Inl (OperationalError msg) \<Rightarrow> server_error sess db
                   | Inl OverflowError \<Rightarrow> server_error sess db)
      else \<lparr> resp = Render ''students/new.html'' [(''data'', Empty_dict)], flashed = [],
             session_after = sess, db_after = db \<rparr>)"

definition create_student :: "string \<Rightarrow> view" where
  "create_student now = login_required (create_student_view now)"

definition view_student_view :: "nat \<Rightarrow> view" where
  "view_student_view i req sess db =
     (case select_student db i of
        Inl e \<Rightarrow> server_error sess db
      | Inr None \<Rightarrow> abort 404 sess db
      | Inr (Some row) \<Rightarrow>
          \<lparr> resp = Render ''students/view.html'' [(''s'', Row row)], flashed = [],
            session_after = sess, db_after = db \<rparr>)"

definition view_student :: "nat \<Rightarrow> view" where
  "view_student i req sess db =
     (if r_method req \<noteq> GET then abort 405 sess db
      else login_required (view_student_view i) req sess db)"

definition edit_student_view :: "nat \<Rightarrow> view" where
  "edit_student_view i req sess db =
     (case select_student db i of
        Inl e \<Rightarrow> server_error sess db
      | Inr None \<Rightarrow> abort 404 sess db
      | Inr (Some row) \<Rightarrow>
          if r_method req = POST then
            if \<not> validate_csrf (r_form req ''csrf_token'') sess then abort 400 sess db
            else
              (let (errors, data) = validate_student (r_form req)
               in if errors \<noteq> []
                  then \<lparr> resp = Render ''students/edit.html'' [(''s'', Row row), (''data'', Data data)],
                         flashed = map (\<lambda>e. (e, ''danger'')) errors,
                         session_after = sess, db_after = db \<rparr>
                  else if \<exists>r \<in> set (students db). student_id r = d_student_id data \<and> s_id r \<noteq> i
                  then \<lparr> resp = Render ''students/edit.html'' [(''s'', Row row), (''data'', Data data)],
                         flashed = [(''Student ID already exists.'', ''danger'')],
                         session_after = sess, db_after = db \<rparr>
                  else if d_email data \<noteq> [] \<and>
                          (\<exists>r \<in> set (students db). email r = Some (d_email data) \<and> s_id r \<noteq> i)
                  then \<lparr> resp = Render ''students/edit.html'' [(''s'', Row row), (''data'', Data data)],
                         flashed = [(''Email already exists.'', ''danger'')],
                         session_after = sess, db_after = db \<rparr>
                  else case update_student db i data of
                         Inr db' \<Rightarrow>
                           \<lparr> resp = Redirect (Url_view_student i),
                             flashed = [(''Student updated.'', ''success'')],
                             session_after = sess, db_after = db' \<rparr>
                       | Inl (IntegrityError msg) \<Rightarrow>
                           \<lparr> resp = Render ''students/edit.html''
                                      [(''s'', Row row), (''data'', Row_dict row)],
                             flashed = [(''Database error while updating student.'', ''danger'')],
                             session_after = sess, db_after = db \<rparr>
                       | Inl (OperationalError msg) \<Rightarrow> server_error sess db
                       | Inl OverflowError \<Rightarrow> server_error sess db)
          else \<lparr> resp = Render ''students/edit.html'' [(''s'', Row row), (''data'', Row_dict row)],
                 flashed = [], session_after = sess, db_after = db \<rparr>)"

definition edit_student :: "nat \<Rightarrow> view" where
  "edit_student i = login_required (edit_student_view i)"

definition delete_student_view :: "nat \<Rightarrow> view" where
  "delete_student_view i req sess db =
     (if \<not> validate_csrf (r_form req ''csrf_token'') sess then abort 400 sess db
      else case delete_row db i of
             Inl e \<Rightarrow> server_error sess db
           | Inr db' \<Rightarrow>
               \<lparr> resp = Redirect Url_list_students, flashed = [(''Student deleted.'', ''info'')],
                 session_after = sess, db_after = db' \<rparr>)"

definition delete_student :: "nat \<Rightarrow> view" where
  "delete_student i req sess db =
     (if r_method req \<noteq> POST then abort 405 sess db
      else login_required (delete_student_view i) req sess db)"

section \<open>Languages of patterns\<close>




section \<open>Sample data\<close>

definition demo_admin :: user where
  "demo_admin = \<lparr> u_id = 1, username = ''admin'', password_hash = ''h:admin123'',
                   u_created_at = ''2024-01-01T09:00:00'' \<rparr>"

definition demo_jane :: student where
  "demo_jane = \<lparr> s_id = 1, student_id = ''S100'', name = ''Jane Doe'', department = ''CS'',
                  email = Some ''jane@example.com'', phone = None,
                  created_at = ''2024-01-01T10:00:00'' \<rparr>"

definition demo_db :: database where
  "demo_db = \<lparr> users = [demo_admin], students = [demo_jane], users_seq = 1, students_seq = 1 \<rparr>"

definition demo_session :: session where
  "demo_session = [''user_id'' \<mapsto> SInt 1, ''username'' \<mapsto> SStr ''admin'',
                    ''_csrf_token'' \<mapsto> SStr ''c0ffee'']"

text \<open>A stand-in for \<open>check_password_hash\<close>.\<close>

definition demo_chk :: "string \<Rightarrow> string \<Rightarrow> bool" where
  "demo_chk h p = (h = ''h:'' @ p)"

definition demo_request ::
  "http_method \<Rightarrow> string \<Rightarrow> (string \<times> string) list \<Rightarrow> (string \<times> string) list \<Rightarrow> request" where
  "demo_request m p a f = \<lparr> r_method = m, r_path = p, r_args = map_of a, r_form = map_of f \<rparr>"

definition demo_jane_form :: "(string \<times> string) list" where
  "demo_jane_form = [(''csrf_token'', ''c0ffee''), (''name'', ''Jane Doe''),
                     (''student_id'', ''S100''), (''department'', ''CS''),
                     (''email'', ''jane@example.com'')]"

section \<open>The shapes the validator accepts\<close>





section \<open>The constraints of the students table\<close>

text \<open>The email of a row as text, NULL read as the empty string.\<close>

definition email_text :: "student \<Rightarrow> string" where
  "email_text r = (case email r of None \<Rightarrow> [] | Some e \<Rightarrow> e)"

definition students_invariant :: "database \<Rightarrow> bool" where
  "students_invariant db \<longleftrightarrow>
     distinct (map student_id (students db)) \<and>
     distinct (filter (\<lambda>e. e \<noteq> []) (map email_text (students db))) \<and>
     (\<forall>r \<in> set (students db). name r \<noteq> [] \<and> student_id r \<noteq> [] \<and> department r \<noteq> [])"

text \<open>
  The invariant together with the primary key of the table (\<open>id INTEGER PRIMARY KEY\<close>),
  which no two rows of a table of the engine share.
\<close>

definition table_ok :: "database \<Rightarrow> bool" where
  "table_ok db \<longleftrightarrow> students_invariant db \<and> distinct (map s_id (students db))"

text \<open>
  The databases that the program can produce: \<open>init_db\<close> on a new file, then any number
  of requests to \<open>init_db\<close> and to the create, edit and delete routes.
\<close>

inductive reachable :: "database \<Rightarrow> bool" where
  fresh: "reachable (init_db gen now None)"
| again: "reachable db \<Longrightarrow> reachable (init_db gen now (Some db))"
| create: "reachable db \<Longrightarrow> reachable (db_after (create_student now req sess db))"
| edit: "reachable db \<Longrightarrow> reachable (db_after (edit_student i req sess db))"
| delete: "reachable db \<Longrightarrow> reachable (db_after (delete_student i req sess db))"

section \<open>Searching, in the words of the specification\<close>

text \<open>\<open>q\<close> occurs in \<open>s\<close> when the ASCII letters of both are read without case.\<close>

definition ci_substring :: "string \<Rightarrow> string \<Rightarrow> bool" where
  "ci_substring q s = contains (map lower q) (map lower s)"

definition row_matches :: "string \<Rightarrow> student \<Rightarrow> bool" where
  "row_matches q r \<longleftrightarrow>
     ci_substring q (name r) \<or> ci_substring q (student_id r) \<or>
     ci_substring q (department r) \<or> ci_substring q (email_text r)"

text \<open>The same with every field read up to its first NUL character, as the engine does.\<close>

definition row_matches_c :: "string \<Rightarrow> student \<Rightarrow> bool" where
  "row_matches_c q r \<longleftrightarrow>
     ci_substring q (c_string (name r)) \<or> ci_substring q (c_string (student_id r)) \<or>
     ci_substring q (c_string (department r)) \<or> ci_substring q (c_string (email_text r))"

section \<open>The matcher is correct\<close>











section \<open>Stripping\<close>

lemma dropWhile_rev_nonempty:
  assumes "dropWhile P (rev xs) \<noteq> []"
  shows "xs \<noteq> []"
proof
  assume "xs = []"
  then have "dropWhile P (rev xs) = []" by (simp only: rev.simps dropWhile.simps)
  with assms show False ..
qed

lemma strip_ends:
  assumes "strip s \<noteq> []"
  shows "\<not> is_space (hd (strip s))" and "\<not> is_space (last (strip s))"
proof -
  define a where "a = dropWhile is_space s"
  define b where "b = dropWhile is_space (rev a)"
  have st: "strip s = rev b" by (simp only: strip_def a_def b_def)
  from assms have b: "b \<noteq> []" by (simp only: st rev_is_Nil_conv not_False_eq_True)
  then have "\<not> is_space (hd b)" unfolding b_def by (rule hd_dropWhile)
  then show "\<not> is_space (last (strip s))"
    using b by (simp add: st last_rev)
  from b have a: "a \<noteq> []" unfolding b_def by (rule dropWhile_rev_nonempty)
  then have ha: "\<not> is_space (hd a)" unfolding a_def by (rule hd_dropWhile)
  have "rev a = takeWhile is_space (rev a) @ b"
    unfolding b_def by (simp only: takeWhile_dropWhile_id)
  then have "rev (rev a) = rev (takeWhile is_space (rev a) @ b)" by (simp only:)
  then have "a = rev b @ rev (takeWhile is_space (rev a))"
    by (simp only: rev_rev_ident rev_append)
  then have "hd a = hd (rev b @ rev (takeWhile is_space (rev a)))" by (simp only:)
  also have "\<dots> = hd (rev b)" using b by (simp only: hd_append rev_is_Nil_conv if_False)
  finally show "\<not> is_space (hd (strip s))" using ha by (simp add: st)
qed

lemma dropWhile_hd_id: "xs \<noteq> [] \<Longrightarrow> \<not> P (hd xs) \<Longrightarrow> dropWhile P xs = xs"
  by (cases xs) simp_all

lemma strip_idem: "strip (strip s) = strip s"
proof (cases "strip s = []")
  case True
  have "strip [] = []" by (simp add: strip_def)
  with True show ?thesis by (simp only:)
next
  case False
  then have h: "\<not> is_space (hd (strip s))" and l: "\<not> is_space (last (strip s))"
    by (rule strip_ends)+
  define t where "t = strip s"
  from False h l have t: "t \<noteq> []" "\<not> is_space (hd t)" "\<not> is_space (last t)"
    by (simp_all only: t_def not_False_eq_True)
  from t(1,2) have 1: "dropWhile is_space t = t" by (rule dropWhile_hd_id)
  from t have "rev t \<noteq> []" "\<not> is_space (hd (rev t))" by (simp_all add: hd_rev)
  then have 2: "dropWhile is_space (rev t) = rev t" by (rule dropWhile_hd_id)
  have "strip t = t" by (simp only: strip_def [of t] 1 2 rev_rev_ident)
  then show ?thesis by (simp only: t_def)
qed

section \<open>The email pattern\<close>







section \<open>Facts about the storage operations and the handlers\<close>

lemma select_student_absent:
  "select_student db i = Inr None \<longleftrightarrow> sqlite_integer i \<and> (\<forall>r \<in> set (students db). s_id r \<noteq> i)"
  by (auto simp: select_student_def find_None_iff)

lemma delete_row_Inr:
  "delete_row db i = Inr db' \<longleftrightarrow>
     sqlite_integer i \<and> db' = db \<lparr> students := filter (\<lambda>r. s_id r \<noteq> i) (students db) \<rparr>"
  by (auto simp: delete_row_def)

lemma delete_row_absent: "select_student db i = Inr None \<Longrightarrow> delete_row db i = Inr db"
  by (simp add: select_student_absent delete_row_def)

lemma delete_row_twice: "delete_row db i = Inr db' \<Longrightarrow> delete_row db' i = Inr db'"
  by (auto simp: delete_row_def split: if_splits)

lemma validate_student_data: "snd (validate_student f) = normalized f"
  by (simp add: validate_student_def Let_def)

lemma validate_csrf_iff:
  "validate_csrf tok sess \<longleftrightarrow>
     \<not> (tok = None \<or> tok = Some [] \<or> sess ''_csrf_token'' \<noteq> map_option SStr tok)"
  by (cases tok) (auto simp: validate_csrf_def)

lemma update_student_Inr:
  assumes "update_student db i data = Inr db'"
  shows "db' = db \<lparr> students := map (\<lambda>r. if s_id r = i then set_columns data r else r)
                                     (students db) \<rparr>"
proof (cases "\<exists>r \<in> set (students db). s_id r = i")
  case True
  with assms show ?thesis
    by (simp add: update_student_def split: if_splits)
next
  case False
  then have "map (\<lambda>r. if s_id r = i then set_columns data r else r) (students db) = students db"
    by (intro map_idI) auto
  moreover from False assms have "db' = db"
    by (simp add: update_student_def split: if_splits)
  ultimately show ?thesis by simp
qed

lemma edit_student_view_success:
  assumes "resp (edit_student_view i req sess db) = Redirect (Url_view_student i)"
  shows "update_student db i (normalized (r_form req))
           = Inr (db_after (edit_student_view i req sess db)) \<and>
         session_after (edit_student_view i req sess db) = sess"
proof -
  obtain errors data where v: "validate_student (r_form req) = (errors, data)"
    by (cases "validate_student (r_form req)")
  then have d: "data = normalized (r_form req)"
    using validate_student_data [of "r_form req"] by simp
  show ?thesis
  proof (cases "update_student db i data")
    case (Inl e)
    with assms v show ?thesis
      by (cases e)
        (simp_all add: edit_student_view_def abort_def server_error_def
          split: option.splits if_splits sum.splits)
  next
    case (Inr db')
    with assms v show ?thesis
      unfolding d [symmetric]
      by (auto simp: edit_student_view_def abort_def server_error_def
          split: option.splits if_splits sum.splits)
  qed
qed

section \<open>Unique columns\<close>

lemma distinct_filter_map_inj:
  assumes "distinct (filter Q (map f xs))" and "x \<in> set xs" and "y \<in> set xs"
    and "f x = f y" and "Q (f x)"
  shows "x = y"
proof -
  have "filter Q (map f xs) = map f (filter (\<lambda>z. Q (f z)) xs)"
    by (simp add: filter_map comp_def)
  with assms(1) have "inj_on f (set (filter (\<lambda>z. Q (f z)) xs))"
    by (simp add: distinct_map)
  moreover from assms have "x \<in> set (filter (\<lambda>z. Q (f z)) xs)" "y \<in> set (filter (\<lambda>z. Q (f z)) xs)"
    by simp_all
  ultimately show ?thesis using assms(4) by (meson inj_onD)
qed

lemma distinct_map_inj:
  assumes "distinct (map f xs)" and "x \<in> set xs" and "y \<in> set xs" and "f x = f y"
  shows "x = y"
  using assms by (meson distinct_map inj_onD)

lemma select_student_Some:
  "select_student db i = Inr (Some row) \<Longrightarrow> sqlite_integer i \<and> row \<in> set (students db) \<and> s_id row = i"
  by (auto simp: select_student_def find_Some_iff split: if_splits)

lemma email_Some_text: "email r = Some e \<Longrightarrow> email_text r = e"
  by (simp add: email_text_def)

lemma own_student_id_no_conflict:
  assumes "distinct (map student_id (students db))" and "row \<in> set (students db)"
    and "s_id row = i"
  shows "\<not> (\<exists>r \<in> set (students db). student_id r = student_id row \<and> s_id r \<noteq> i)"
  using assms distinct_map_inj [of student_id "students db"] by blast

lemma own_email_no_conflict:
  assumes "distinct (filter (\<lambda>e. e \<noteq> []) (map email_text (students db)))"
    and "row \<in> set (students db)" and "s_id row = i" and "email_text row \<noteq> []"
  shows "\<not> (\<exists>r \<in> set (students db). email r = Some (email_text row) \<and> s_id r \<noteq> i)"
proof
  assume "\<exists>r \<in> set (students db). email r = Some (email_text row) \<and> s_id r \<noteq> i"
  then obtain r where r: "r \<in> set (students db)" "email r = Some (email_text row)" "s_id r \<noteq> i"
    by blast
  then have "email_text r = email_text row" by (simp add: email_Some_text)
  with assms(1) r(1) assms(2) assms(4) have "r = row"
    by (intro distinct_filter_map_inj [of "\<lambda>e. e \<noteq> []" email_text "students db"]) simp_all
  with r(3) assms(3) show False by simp
qed

section \<open>The sample data evaluated\<close>

lemma jane_email_ok: "match_to_dollar EMAIL_RE ''jane@example.com''"
  by (simp add: match_to_dollar_def EMAIL_RE_def plus_re_def whitespace_def)

lemma notice_student_id:
  "create_error_notice ''UNIQUE constraint failed: students.student_id''
     = ''Student ID already exists.''"
  by (simp add: create_error_notice_def lower_def)

lemma notice_email:
  "create_error_notice ''UNIQUE constraint failed: students.email''
     = ''Email already exists.''"
  by (simp add: create_error_notice_def lower_def)

lemma demo_jane_form_normalized:
  "normalized (map_of demo_jane_form)
     = \<lparr> d_name = ''Jane Doe'', d_student_id = ''S100'', d_department = ''CS'',
         d_email = ''jane@example.com'', d_phone = [] \<rparr>"
  by (simp add: normalized_def demo_jane_form_def get_or_empty_def strip_def is_space_def
      whitespace_def)

lemma demo_jane_form_valid:
  "validate_student (map_of demo_jane_form)
     = ([], \<lparr> d_name = ''Jane Doe'', d_student_id = ''S100'', d_department = ''CS'',
               d_email = ''jane@example.com'', d_phone = [] \<rparr>)"
  unfolding validate_student_def demo_jane_form_normalized
  by (simp add: Let_def jane_email_ok)

section \<open>Rejected inserts\<close>

lemma filter_key_single:
  assumes "distinct (map f xs)" and "\<exists>x \<in> set xs. f x = v"
  shows "length (filter (\<lambda>x. f x = v) xs) = 1"
  using assms
proof (induction xs)
  case Nil
  then show ?case by simp
next
  case (Cons a xs)
  show ?case
  proof (cases "f a = v")
    case True
    with Cons.prems(1) have "\<forall>x \<in> set xs. f x \<noteq> v" by (metis distinct.simps(2) image_eqI list.simps(9) set_map)
    then have "filter (\<lambda>x. f x = v) xs = []" by (simp add: filter_empty_conv)
    with True show ?thesis by simp
  next
    case False
    with Cons show ?thesis by auto
  qed
qed

lemma insert_student_conflict:
  assumes "sqlite_integer (next_rowid (students_seq db) (map s_id (students db)))"
    and "\<exists>r \<in> set (students db). student_id r = d_student_id data"
  shows "insert_student db data now
           = Inl (IntegrityError (''UNIQUE constraint failed: '' @
                (if d_email data \<noteq> [] \<and> (\<exists>r \<in> set (students db). email r = Some (d_email data))
                 then ''students.email'' else ''students.student_id'')))"
  using assms by (simp add: insert_student_def Let_def unique_failed_def)

section \<open>The storage operations and the invariant of the students table\<close>


lemma fold_max_bounds: "a \<le> fold max xs (a::nat) \<and> (\<forall>x \<in> set xs. x \<le> fold max xs a)"
proof (induction xs arbitrary: a)
  case Nil
  show ?case by simp
next
  case (Cons y ys)
  from Cons [of "max y a"] show ?case by auto
qed

lemma next_rowid_fresh: "next_rowid seq ids \<notin> set ids"
proof
  assume "next_rowid seq ids \<in> set ids"
  then have "next_rowid seq ids \<le> fold max ids seq"
    using fold_max_bounds [of seq ids] by blast
  then show False by (simp add: next_rowid_def)
qed

lemma email_text_eq_nonempty: "e \<noteq> [] \<Longrightarrow> email_text r = e \<longleftrightarrow> email r = Some e"
  by (cases "email r") (auto simp: email_text_def)

lemma email_text_or_none: "email_text (r \<lparr> email := or_none e \<rparr>) = e"
  by (simp add: email_text_def or_none_def)

lemma valid_fields_nonempty:
  assumes "fst (validate_student f) = []"
  shows "d_name (normalized f) \<noteq> [] \<and> d_student_id (normalized f) \<noteq> [] \<and>
         d_department (normalized f) \<noteq> []"
  using assms by (auto simp: validate_student_def Let_def split: if_splits)

lemma distinct_filter_map_update:
  assumes "distinct (map key xs)" and "distinct (filter Q (map f xs))"
    and "Q v \<Longrightarrow> \<forall>x \<in> set xs. key x \<noteq> i \<longrightarrow> f x \<noteq> v"
    and "\<And>x. f (g x) = v"
  shows "distinct (filter Q (map f (map (\<lambda>x. if key x = i then g x else x) xs)))"
  using assms(1,2,3)
proof (induction xs)
  case Nil
  show ?case by simp
next
  case (Cons a xs)
  let ?upd = "\<lambda>x. if key x = i then g x else x"
  have p1: "distinct (map key xs)" using Cons.prems(1) by simp
  have p2: "distinct (filter Q (map f xs))" using Cons.prems(2) by (simp split: if_splits)
  have p3: "Q v \<Longrightarrow> \<forall>x \<in> set xs. key x \<noteq> i \<longrightarrow> f x \<noteq> v" using Cons.prems(3) by simp
  have ih: "distinct (filter Q (map f (map ?upd xs)))" using p1 p2 p3 by (rule Cons.IH)
  have mem: "y \<in> set (filter Q (map f (map ?upd xs))) \<Longrightarrow>
             y \<in> set (filter Q (map f xs)) \<or> (y = v \<and> Q v \<and> (\<exists>x \<in> set xs. key x = i))" for y
    using assms(4) by (auto split: if_splits)
  show ?case
  proof (cases "key a = i")
    case True
    from Cons.prems(1) have "key a \<notin> key ` set xs" by simp
    with True have "\<forall>x \<in> set xs. key x \<noteq> i" by (metis imageI)
    then have same: "map ?upd xs = xs" by (intro map_idI) auto
    from True have "f (?upd a) = v" using assms(4) by simp
    moreover have "Q v \<Longrightarrow> v \<notin> set (filter Q (map f xs))"
      using Cons.prems(3) \<open>\<forall>x \<in> set xs. key x \<noteq> i\<close> by auto
    moreover from Cons.prems(2) have "distinct (filter Q (map f xs))" by (auto split: if_splits)
    ultimately show ?thesis using same by auto
  next
    case False
    have "Q (f a) \<Longrightarrow> f a \<notin> set (filter Q (map f (map ?upd xs)))"
    proof
      assume q: "Q (f a)" and "f a \<in> set (filter Q (map f (map ?upd xs)))"
      then consider "f a \<in> set (filter Q (map f xs))" | "f a = v" "Q v"
        using mem [of "f a"] by blast
      then show False
      proof cases
        case 1
        with Cons.prems(2) q show False by auto
      next
        case 2
        with Cons.prems(3) False show False by auto
      qed
    qed
    with ih False show ?thesis by auto
  qed
qed

lemma distinct_filter_map_filter:
  "distinct (filter Q (map f xs)) \<Longrightarrow> distinct (filter Q (map f (filter P xs)))"
  by (induction xs) (auto split: if_splits)

lemma insert_student_table_ok:
  assumes "insert_student db data now = Inr db'" and "table_ok db"
    and "d_name data \<noteq> [] \<and> d_student_id data \<noteq> [] \<and> d_department data \<noteq> []"
  shows "table_ok db'"
proof -
  let ?i = "next_rowid (students_seq db) (map s_id (students db))"
  let ?row = "\<lparr> s_id = ?i, student_id = d_student_id data, name = d_name data,
                department = d_department data, email = or_none (d_email data),
                phone = or_none (d_phone data), created_at = now \<rparr>"
  from assms(1) have c1: "\<not> (d_email data \<noteq> [] \<and>
        (\<exists>r \<in> set (students db). email r = Some (d_email data)))"
    and c2: "\<not> (\<exists>r \<in> set (students db). student_id r = d_student_id data)"
    and db': "db' = db \<lparr> students := students db @ [?row], students_seq := ?i \<rparr>"
    by (auto simp: insert_student_def Let_def split: if_splits)
  have e: "email_text ?row = d_email data"
    by (simp add: email_text_def or_none_def)
  have fresh: "?i \<notin> s_id ` set (students db)"
    using next_rowid_fresh [of "students_seq db" "map s_id (students db)"] by simp
  have em: "d_email data \<noteq> [] \<Longrightarrow> d_email data \<notin> email_text ` set (students db)"
  proof
    assume ne: "d_email data \<noteq> []" and "d_email data \<in> email_text ` set (students db)"
    then obtain x where x: "x \<in> set (students db)" "email_text x = d_email data" by auto
    then have "email x = Some (d_email data)" using email_text_eq_nonempty [OF ne] by simp
    with c1 ne x(1) show False by blast
  qed
  from assms(2) have ok: "distinct (map student_id (students db))"
    "distinct (filter (\<lambda>e. e \<noteq> []) (map email_text (students db)))"
    "\<forall>r \<in> set (students db). name r \<noteq> [] \<and> student_id r \<noteq> [] \<and> department r \<noteq> []"
    "distinct (map s_id (students db))"
    by (simp_all add: table_ok_def students_invariant_def)
  have 1: "distinct (map student_id (students db @ [?row]))"
    using ok(1) c2 by auto
  have 2: "distinct (filter (\<lambda>e. e \<noteq> []) (map email_text (students db @ [?row])))"
    using ok(2) em e by auto
  have 3: "\<forall>r \<in> set (students db @ [?row]). name r \<noteq> [] \<and> student_id r \<noteq> [] \<and> department r \<noteq> []"
    using ok(3) assms(3) by auto
  have 4: "distinct (map s_id (students db @ [?row]))"
    using ok(4) fresh by auto
  from 1 2 3 4 show ?thesis
    unfolding db' table_ok_def students_invariant_def by simp
qed

lemma update_student_table_ok:
  assumes "update_student db i data = Inr db'" and "table_ok db"
    and "d_name data \<noteq> [] \<and> d_student_id data \<noteq> [] \<and> d_department data \<noteq> []"
  shows "table_ok db'"
proof (cases "\<exists>r \<in> set (students db). s_id r = i")
  case False
  with assms(1) have "db' = db" by (simp add: update_student_def split: if_splits)
  with assms(2) show ?thesis by simp
next
  case True
  let ?upd = "\<lambda>r. if s_id r = i then set_columns data r else r"
  from True assms(1) have c1: "\<not> (d_email data \<noteq> [] \<and>
        (\<exists>r \<in> set (students db). s_id r \<noteq> i \<and> email r = Some (d_email data)))"
    and c2: "\<not> (\<exists>r \<in> set (students db). s_id r \<noteq> i \<and> student_id r = d_student_id data)"
    and db': "db' = db \<lparr> students := map ?upd (students db) \<rparr>"
    by (auto simp: update_student_def split: if_splits)
  from assms(2) have ok: "distinct (map student_id (students db))"
    "distinct (filter (\<lambda>e. e \<noteq> []) (map email_text (students db)))"
    "\<forall>r \<in> set (students db). name r \<noteq> [] \<and> student_id r \<noteq> [] \<and> department r \<noteq> []"
    "distinct (map s_id (students db))"
    by (simp_all add: table_ok_def students_invariant_def)
  from ok(1) have ok1: "distinct (filter (\<lambda>_. True) (map student_id (students db)))" by simp
  have "distinct (filter (\<lambda>_. True) (map student_id (map ?upd (students db))))"
    using ok(4) ok1
  proof (rule distinct_filter_map_update)
    show "\<forall>x \<in> set (students db). s_id x \<noteq> i \<longrightarrow> student_id x \<noteq> d_student_id data"
      using c2 by blast
    show "student_id (set_columns data x) = d_student_id data" for x
      by (simp add: set_columns_def)
  qed
  then have 1: "distinct (map student_id (map ?upd (students db)))" by simp
  have 2: "distinct (filter (\<lambda>e. e \<noteq> []) (map email_text (map ?upd (students db))))"
    using ok(4) ok(2)
  proof (rule distinct_filter_map_update)
    show "\<forall>x \<in> set (students db). s_id x \<noteq> i \<longrightarrow> email_text x \<noteq> d_email data"
      if ne: "d_email data \<noteq> []"
    proof (intro ballI impI notI)
      fix x assume x: "x \<in> set (students db)" "s_id x \<noteq> i" "email_text x = d_email data"
      then have "email x = Some (d_email data)" using email_text_eq_nonempty [OF ne] by simp
      with c1 ne x(1,2) show False by blast
    qed
    show "email_text (set_columns data x) = d_email data" for x
      by (simp add: set_columns_def email_text_def or_none_def)
  qed
  have 3: "\<forall>r \<in> set (map ?upd (students db)).
             name r \<noteq> [] \<and> student_id r \<noteq> [] \<and> department r \<noteq> []"
    using ok(3) assms(3) by (auto simp: set_columns_def)
  have "s_id (?upd r) = s_id r" for r by (simp add: set_columns_def)
  then have eq: "map s_id (map ?upd (students db)) = map s_id (students db)"
    unfolding map_map comp_def by simp
  have 4: "distinct (map s_id (map ?upd (students db)))" unfolding eq by (rule ok(4))
  from 1 2 3 4 show ?thesis
    unfolding db' table_ok_def students_invariant_def by simp
qed

lemma delete_row_table_ok:
  assumes "delete_row db i = Inr db'" and "table_ok db"
  shows "table_ok db'"
proof -
  from assms(1) have db': "db' = db \<lparr> students := filter (\<lambda>r. s_id r \<noteq> i) (students db) \<rparr>"
    by (auto simp: delete_row_def split: if_splits)
  from assms(2) show ?thesis
    unfolding db' table_ok_def students_invariant_def
    by (auto simp: distinct_map_filter distinct_filter_map_filter)
qed


lemma create_student_db:
  "db_after (create_student now req sess db) = db \<or>
   (fst (validate_student (r_form req)) = [] \<and>
    insert_student db (normalized (r_form req)) now
      = Inr (db_after (create_student now req sess db)))"
proof -
  obtain errors data where v: "validate_student (r_form req) = (errors, data)"
    by (cases "validate_student (r_form req)")
  then have d: "data = normalized (r_form req)"
    using validate_student_data [of "r_form req"] by simp
  show ?thesis
  proof (cases "insert_student db data now")
    case (Inl e)
    with v show ?thesis
      by (cases e)
        (simp_all add: create_student_def login_required_def create_student_view_def
          abort_def server_error_def)
  next
    case (Inr db')
    with v show ?thesis
      unfolding d [symmetric]
      by (simp add: create_student_def login_required_def create_student_view_def abort_def)
  qed
qed

lemma edit_student_db:
  "db_after (edit_student i req sess db) = db \<or>
   (fst (validate_student (r_form req)) = [] \<and>
    update_student db i (normalized (r_form req))
      = Inr (db_after (edit_student i req sess db)))"
proof -
  obtain errors data where v: "validate_student (r_form req) = (errors, data)"
    by (cases "validate_student (r_form req)")
  then have d: "data = normalized (r_form req)"
    using validate_student_data [of "r_form req"] by simp
  show ?thesis
  proof (cases "update_student db i data")
    case (Inl e)
    with v show ?thesis
      by (cases e)
        (simp_all add: edit_student_def login_required_def edit_student_view_def
          abort_def server_error_def split: sum.splits option.splits)
  next
    case (Inr db')
    with v show ?thesis
      unfolding d [symmetric]
      by (simp add: edit_student_def login_required_def edit_student_view_def abort_def
          server_error_def split: sum.splits option.splits)
  qed
qed

lemma delete_student_db:
  "db_after (delete_student i req sess db) = db \<or>
   delete_row db i = Inr (db_after (delete_student i req sess db))"
  by (simp add: delete_student_def login_required_def delete_student_view_def abort_def
      server_error_def split: sum.splits)

lemma table_ok_students: "students a = students b \<Longrightarrow> table_ok a = table_ok b"
  by (simp add: table_ok_def students_invariant_def)

lemma init_db_students:
  "students (init_db gen now file) = (case file of None \<Rightarrow> [] | Some db \<Rightarrow> students db)"
  by (simp add: init_db_def empty_db_def Let_def split: option.splits)

lemma create_student_table_ok:
  "table_ok db \<Longrightarrow> table_ok (db_after (create_student now req sess db))"
  using create_student_db [of now req sess db]
    insert_student_table_ok [of db "normalized (r_form req)" now
      "db_after (create_student now req sess db)"]
    valid_fields_nonempty [of "r_form req"]
  by auto

lemma edit_student_table_ok:
  "table_ok db \<Longrightarrow> table_ok (db_after (edit_student i req sess db))"
  using edit_student_db [of i req sess db]
    update_student_table_ok [of db i "normalized (r_form req)"
      "db_after (edit_student i req sess db)"]
    valid_fields_nonempty [of "r_form req"]
  by auto

lemma delete_student_table_ok:
  "table_ok db \<Longrightarrow> table_ok (db_after (delete_student i req sess db))"
  using delete_student_db [of i req sess db]
    delete_row_table_ok [of db i "db_after (delete_student i req sess db)"]
  by auto

lemma reachable_table_ok: "reachable db \<Longrightarrow> table_ok db"
proof (induction rule: reachable.induct)
  case (fresh gen now)
  have "students (init_db gen now None) = []" by (simp add: init_db_students)
  then show ?case by (simp add: table_ok_def students_invariant_def)
next
  case (again db gen now)
  have "students (init_db gen now (Some db)) = students db" by (simp add: init_db_students)
  then have "table_ok (init_db gen now (Some db)) = table_ok db" by (rule table_ok_students)
  with again.IH show ?case by simp
next
  case (create db now req sess)
  then show ?case by (intro create_student_table_ok)
next
  case (edit db i req sess)
  then show ?case by (intro edit_student_table_ok)
next
  case (delete db i req sess)
  then show ?case by (intro delete_student_table_ok)
qed

section \<open>What the validator accepts and what the create route stores\<close>









section \<open>Validating and storing a student\<close>




section \<open>The CSRF guard\<close>

text \<open>
  Claim C2, as the code has it. Take a POST to the create, edit or delete route whose form
  token is missing, empty or different from the token of the session. The database is
  left unchanged in every case. For a logged-in session the create and the delete route
  answer 400; the edit route, for an id that fits the INTEGER of SQLite, answers 400 when
  the student exists and 404 when it does not, since the edit handler looks the student up
  before it checks the token. For a session that is not logged in, the guard of the route
  redirects to the login page.
\<close>

theorem csrf_failure_rejected:
  assumes "r_method req = POST"
    and "r_form req ''csrf_token'' = None \<or> r_form req ''csrf_token'' = Some [] \<or>
         sess ''_csrf_token'' \<noteq> map_option SStr (r_form req ''csrf_token'')"
  shows "db_after (create_student now req sess db) = db \<and>
         db_after (edit_student i req sess db) = db \<and>
         db_after (delete_student i req sess db) = db \<and>
         (sess ''user_id'' \<noteq> None \<longrightarrow>
            resp (create_student now req sess db) = Abort 400 \<and>
            resp (delete_student i req sess db) = Abort 400 \<and>
            (sqlite_integer i \<longrightarrow>
               resp (edit_student i req sess db)
                 = (if select_student db i = Inr None then Abort 404 else Abort 400))) \<and>
         (sess ''user_id'' = None \<longrightarrow>
            resp (create_student now req sess db) = Redirect (Url_login (Some (r_path req))) \<and>
            resp (delete_student i req sess db) = Redirect (Url_login (Some (r_path req))) \<and>
            resp (edit_student i req sess db) = Redirect (Url_login (Some (r_path req))))"
proof -
  from assms(2) have c: "\<not> validate_csrf (r_form req ''csrf_token'') sess"
    by (simp add: validate_csrf_iff)
  with assms(1) show ?thesis
    by (simp add: create_student_def edit_student_def delete_student_def login_required_def
        create_student_view_def edit_student_view_def delete_student_view_def abort_def
        server_error_def select_student_def
        split: option.splits sum.splits)
qed

theorem csrf_failure_rejected_witness:
  "r_method (demo_request POST ''/students/1/delete'' [] [(''csrf_token'', ''bad'')]) = POST \<and>
   demo_session ''_csrf_token''
     \<noteq> map_option SStr (r_form (demo_request POST ''/students/1/delete'' []
                                  [(''csrf_token'', ''bad'')]) ''csrf_token'') \<and>
   demo_session ''user_id'' \<noteq> None \<and> sqlite_integer 1 \<and>
   db_after (delete_student 1
      (demo_request POST ''/students/1/delete'' [] [(''csrf_token'', ''bad'')])
      demo_session demo_db) = demo_db \<and>
   resp (delete_student 1
      (demo_request POST ''/students/1/delete'' [] [(''csrf_token'', ''bad'')])
      demo_session demo_db) = Abort 400 \<and>
   resp (edit_student 1
      (demo_request POST ''/students/1/delete'' [] [(''csrf_token'', ''bad'')])
      demo_session demo_db)
     = (if select_student demo_db 1 = Inr None then Abort 404 else Abort 400)"
proof -
  let ?req = "demo_request POST ''/students/1/delete'' [] [(''csrf_token'', ''bad'')]"
  have m: "r_method ?req = POST" by (simp add: demo_request_def)
  have t: "demo_session ''_csrf_token'' \<noteq> map_option SStr (r_form ?req ''csrf_token'')"
    by (simp add: demo_request_def demo_session_def)
  have u: "demo_session ''user_id'' \<noteq> None" by (simp add: demo_session_def)
  have b: "sqlite_integer 1" by (simp add: sqlite_integer_def)
  from t have d: "r_form ?req ''csrf_token'' = None \<or> r_form ?req ''csrf_token'' = Some [] \<or>
      demo_session ''_csrf_token'' \<noteq> map_option SStr (r_form ?req ''csrf_token'')"
    by blast
  from csrf_failure_rejected [where req = ?req and sess = demo_session and db = demo_db and i = 1,
      OF m d] m t u b
  show ?thesis by blast
qed

text \<open>
  Claim C2 as stated fails: an edit POST without a token, for an id that no student has,
  is answered with 404 and not with 400.
\<close>

theorem csrf_failure_counterexample:
  "r_method (demo_request POST ''/students/7/edit'' [] []) = POST \<and>
   r_form (demo_request POST ''/students/7/edit'' [] []) ''csrf_token'' = None \<and>
   demo_session ''user_id'' \<noteq> None \<and>
   resp (edit_student 7 (demo_request POST ''/students/7/edit'' [] []) demo_session demo_db)
     = Abort 404 \<and>
   resp (edit_student 7 (demo_request POST ''/students/7/edit'' [] []) demo_session demo_db)
     \<noteq> Abort 400"
  by (simp add: demo_request_def demo_session_def demo_db_def demo_jane_def edit_student_def
      login_required_def edit_student_view_def select_student_def abort_def sqlite_integer_def)

section \<open>Creating a student whose id is taken\<close>

text \<open>
  Claim C3, as the code has it. Let a student with some student id exist, and let a
  logged-in session submit a create form with that student id, valid fields and a valid
  CSRF token, while the table can still give out a row id. Then no row is inserted and
  the database is unchanged, so that exactly one row with that student id remains, and
  the form is rendered again with one notice: \<open>Email already exists.\<close> when the
  submitted email is not empty and some student holds it, and
  \<open>Student ID already exists.\<close> otherwise.
\<close>

theorem create_duplicate_student_id:
  assumes "sess ''user_id'' \<noteq> None" and "r_method req = POST"
    and "validate_csrf (r_form req ''csrf_token'') sess"
    and "fst (validate_student (r_form req)) = []"
    and "\<exists>r \<in> set (students db). student_id r = d_student_id (normalized (r_form req))"
    and "sqlite_integer (next_rowid (students_seq db) (map s_id (students db)))"
  shows "db_after (create_student now req sess db) = db \<and>
         resp (create_student now req sess db) = Render ''students/new.html'' [(''data'', Empty_dict)] \<and>
         flashed (create_student now req sess db)
           = [(if d_email (normalized (r_form req)) \<noteq> [] \<and>
                  (\<exists>r \<in> set (students db). email r = Some (d_email (normalized (r_form req))))
               then ''Email already exists.'' else ''Student ID already exists.'', ''danger'')] \<and>
         (distinct (map student_id (students db)) \<longrightarrow>
            length (filter (\<lambda>r. student_id r = d_student_id (normalized (r_form req)))
                      (students (db_after (create_student now req sess db)))) = 1)"
proof -
  let ?data = "normalized (r_form req)"
  have v: "validate_student (r_form req) = ([], ?data)"
    using assms(4) by (simp add: validate_student_def Let_def)
  have e: "create_student now req sess db = create_student_view now req sess db"
    using assms(1) by (auto simp: create_student_def login_required_def)
  note i = insert_student_conflict [OF assms(6) assms(5), of now]
  have o: "create_student_view now req sess db
      = \<lparr> resp = Render ''students/new.html'' [(''data'', Empty_dict)],
          flashed = [(if d_email ?data \<noteq> [] \<and>
                         (\<exists>r \<in> set (students db). email r = Some (d_email ?data))
                      then ''Email already exists.'' else ''Student ID already exists.'', ''danger'')],
          session_after = sess, db_after = db \<rparr>"
    unfolding create_student_view_def v
    using assms(2,3) by (simp add: i notice_email notice_student_id)
  have "distinct (map student_id (students db)) \<longrightarrow>
          length (filter (\<lambda>r. student_id r = d_student_id ?data) (students db)) = 1"
    using filter_key_single [of student_id "students db" "d_student_id ?data"] assms(5) by simp
  with e o show ?thesis by simp
qed

theorem create_duplicate_student_id_witness:
  "demo_session ''user_id'' \<noteq> None \<and>
   r_method (demo_request POST ''/students/new'' []
      [(''csrf_token'', ''c0ffee''), (''name'', ''John Roe''), (''student_id'', ''S100''),
       (''department'', ''Math'')]) = POST \<and>
   validate_csrf (r_form (demo_request POST ''/students/new'' []
      [(''csrf_token'', ''c0ffee''), (''name'', ''John Roe''), (''student_id'', ''S100''),
       (''department'', ''Math'')]) ''csrf_token'') demo_session \<and>
   fst (validate_student (r_form (demo_request POST ''/students/new'' []
      [(''csrf_token'', ''c0ffee''), (''name'', ''John Roe''), (''student_id'', ''S100''),
       (''department'', ''Math'')]))) = [] \<and>
   (\<exists>r \<in> set (students demo_db). student_id r = d_student_id (normalized (r_form
      (demo_request POST ''/students/new'' []
      [(''csrf_token'', ''c0ffee''), (''name'', ''John Roe''), (''student_id'', ''S100''),
       (''department'', ''Math'')])))) \<and>
   sqlite_integer (next_rowid (students_seq demo_db) (map s_id (students demo_db))) \<and>
   distinct (map student_id (students demo_db)) \<and>
   db_after (create_student ''2024-02-02T08:00:00'' (demo_request POST ''/students/new'' []
      [(''csrf_token'', ''c0ffee''), (''name'', ''John Roe''), (''student_id'', ''S100''),
       (''department'', ''Math'')]) demo_session demo_db) = demo_db \<and>
   flashed (create_student ''2024-02-02T08:00:00'' (demo_request POST ''/students/new'' []
      [(''csrf_token'', ''c0ffee''), (''name'', ''John Roe''), (''student_id'', ''S100''),
       (''department'', ''Math'')]) demo_session demo_db)
     = [(''Student ID already exists.'', ''danger'')]"
proof -
  let ?req = "demo_request POST ''/students/new'' []
      [(''csrf_token'', ''c0ffee''), (''name'', ''John Roe''), (''student_id'', ''S100''),
       (''department'', ''Math'')]"
  have n: "normalized (r_form ?req)
           = \<lparr> d_name = ''John Roe'', d_student_id = ''S100'', d_department = ''Math'',
               d_email = [], d_phone = [] \<rparr>"
    by (simp add: normalized_def demo_request_def get_or_empty_def strip_def is_space_def
        whitespace_def)
  have h1: "demo_session ''user_id'' \<noteq> None" by (simp add: demo_session_def)
  have h2: "r_method ?req = POST" by (simp add: demo_request_def)
  have h3: "validate_csrf (r_form ?req ''csrf_token'') demo_session"
    by (simp add: demo_request_def demo_session_def validate_csrf_def)
  have h4: "fst (validate_student (r_form ?req)) = []"
    unfolding validate_student_def n by (simp add: Let_def)
  have h5: "\<exists>r \<in> set (students demo_db). student_id r = d_student_id (normalized (r_form ?req))"
    unfolding n by (simp add: demo_db_def demo_jane_def)
  have h6: "sqlite_integer (next_rowid (students_seq demo_db) (map s_id (students demo_db)))"
    by (simp add: sqlite_integer_def next_rowid_def demo_db_def demo_jane_def)
  have h7: "distinct (map student_id (students demo_db))" by (simp add: demo_db_def)
  note t = create_duplicate_student_id [OF h1 h2 h3 h4 h5 h6, of "''2024-02-02T08:00:00''"]
  from t have a: "db_after (create_student ''2024-02-02T08:00:00'' ?req demo_session demo_db) = demo_db"
    by blast
  from t have b: "flashed (create_student ''2024-02-02T08:00:00'' ?req demo_session demo_db)
     = [(''Student ID already exists.'', ''danger'')]"
    unfolding n by simp
  from a b h1 h2 h3 h4 h5 h6 h7 show ?thesis by blast
qed

text \<open>
  Claim C3 as stated fails: a submission that repeats both the student id and the email
  of an existing student gets the notice about the email, not the one about the student
  id, since the engine reports the unique index of the email first.
\<close>

theorem create_duplicate_student_id_counterexample:
  "demo_session ''user_id'' \<noteq> None \<and>
   validate_csrf (r_form (demo_request POST ''/students/new'' [] demo_jane_form) ''csrf_token'')
     demo_session \<and>
   fst (validate_student (r_form (demo_request POST ''/students/new'' [] demo_jane_form))) = [] \<and>
   (\<exists>r \<in> set (students demo_db). student_id r = ''S100'') \<and>
   d_student_id (normalized (r_form (demo_request POST ''/students/new'' [] demo_jane_form)))
     = ''S100'' \<and>
   flashed (create_student ''2024-02-02T08:00:00''
      (demo_request POST ''/students/new'' [] demo_jane_form) demo_session demo_db)
     = [(''Email already exists.'', ''danger'')] \<and>
   flashed (create_student ''2024-02-02T08:00:00''
      (demo_request POST ''/students/new'' [] demo_jane_form) demo_session demo_db)
     \<noteq> [(''Student ID already exists.'', ''danger'')]"
proof -
  let ?req = "demo_request POST ''/students/new'' [] demo_jane_form"
  have f: "r_form ?req = map_of demo_jane_form" by (simp add: demo_request_def)
  have m: "r_method ?req = POST" by (simp add: demo_request_def)
  have h1: "demo_session ''user_id'' \<noteq> None" by (simp add: demo_session_def)
  have h3: "validate_csrf (r_form ?req ''csrf_token'') demo_session"
    by (simp add: demo_request_def demo_jane_form_def demo_session_def validate_csrf_def)
  have h4: "fst (validate_student (r_form ?req)) = []"
    by (simp add: f demo_jane_form_valid)
  have h5: "\<exists>r \<in> set (students demo_db). student_id r = ''S100''"
    by (simp add: demo_db_def demo_jane_def)
  have h6: "d_student_id (normalized (r_form ?req)) = ''S100''"
    by (simp add: f demo_jane_form_normalized)
  have i: "insert_student demo_db
       \<lparr> d_name = ''Jane Doe'', d_student_id = ''S100'', d_department = ''CS'',
         d_email = ''jane@example.com'', d_phone = [] \<rparr> ''2024-02-02T08:00:00''
     = Inl (IntegrityError (''UNIQUE constraint failed: '' @ ''students.email''))"
    by (simp add: insert_student_def Let_def unique_failed_def sqlite_integer_def
        next_rowid_def demo_db_def demo_jane_def)
  have e: "flashed (create_student ''2024-02-02T08:00:00'' ?req demo_session demo_db)
     = [(''Email already exists.'', ''danger'')]"
    using h1 h3 m
    by (simp add: create_student_def login_required_def create_student_view_def f
        demo_jane_form_valid i notice_email)
  from e have ne: "flashed (create_student ''2024-02-02T08:00:00'' ?req demo_session demo_db)
     \<noteq> [(''Student ID already exists.'', ''danger'')]"
    by simp
  from h1 h3 h4 h5 h6 e ne show ?thesis by blast
qed

section \<open>Editing a student to its own values\<close>

text \<open>
  Claim C4, as the code has it. Take a logged-in session and an existing student, in a
  table whose student ids and non-empty emails are unique. An edit submission (a POST
  with a valid CSRF token and valid fields) that resubmits the student's own student id
  and email succeeds: neither uniqueness check, each of which leaves out the rows with
  the edited id, finds a conflict, the update is applied, and the answer is the redirect
  to the student's page with the notice of the update.
\<close>

theorem edit_own_values_succeeds:
  assumes "sess ''user_id'' \<noteq> None" and "r_method req = POST"
    and "validate_csrf (r_form req ''csrf_token'') sess"
    and "fst (validate_student (r_form req)) = []"
    and "select_student db i = Inr (Some row)"
    and "d_student_id (normalized (r_form req)) = student_id row"
    and "d_email (normalized (r_form req)) = email_text row"
    and "distinct (map student_id (students db))"
    and "distinct (filter (\<lambda>e. e \<noteq> []) (map email_text (students db)))"
  shows "resp (edit_student i req sess db) = Redirect (Url_view_student i) \<and>
         flashed (edit_student i req sess db) = [(''Student updated.'', ''success'')] \<and>
         db_after (edit_student i req sess db)
           = db \<lparr> students := map (\<lambda>r. if s_id r = i then set_columns (normalized (r_form req)) r
                                       else r) (students db) \<rparr> \<and>
         \<not> (\<exists>r \<in> set (students db).
               student_id r = d_student_id (normalized (r_form req)) \<and> s_id r \<noteq> i) \<and>
         \<not> (d_email (normalized (r_form req)) \<noteq> [] \<and>
            (\<exists>r \<in> set (students db).
               email r = Some (d_email (normalized (r_form req))) \<and> s_id r \<noteq> i))"
proof -
  let ?data = "normalized (r_form req)"
  from assms(5) have row: "sqlite_integer i" "row \<in> set (students db)" "s_id row = i"
    by (auto dest: select_student_Some)
  have v: "validate_student (r_form req) = ([], ?data)"
    using assms(4) by (simp add: validate_student_def Let_def)
  have c1: "\<not> (\<exists>r \<in> set (students db). student_id r = d_student_id ?data \<and> s_id r \<noteq> i)"
    unfolding assms(6) using assms(8) row(2,3) by (rule own_student_id_no_conflict)
  have c2: "\<not> (d_email ?data \<noteq> [] \<and>
            (\<exists>r \<in> set (students db). email r = Some (d_email ?data) \<and> s_id r \<noteq> i))"
    unfolding assms(7) using own_email_no_conflict [OF assms(9) row(2,3)] by blast
  from c1 have c1': "\<not> (\<exists>r \<in> set (students db). s_id r \<noteq> i \<and> student_id r = d_student_id ?data)"
    by blast
  from c2 have c2': "\<not> (d_email ?data \<noteq> [] \<and>
            (\<exists>r \<in> set (students db). s_id r \<noteq> i \<and> email r = Some (d_email ?data)))"
    by blast
  have ex: "\<exists>r \<in> set (students db). s_id r = i" using row by blast
  have u: "update_student db i ?data
           = Inr (db \<lparr> students := map (\<lambda>r. if s_id r = i then set_columns ?data r else r)
                                        (students db) \<rparr>)"
    using row(1) ex c1' c2' by (simp add: update_student_def)
  have e: "edit_student i req sess db = edit_student_view i req sess db"
    using assms(1) by (auto simp: edit_student_def login_required_def)
  have "edit_student_view i req sess db
          = \<lparr> resp = Redirect (Url_view_student i),
              flashed = [(''Student updated.'', ''success'')],
              session_after = sess,
              db_after = db \<lparr> students := map (\<lambda>r. if s_id r = i then set_columns ?data r else r)
                                        (students db) \<rparr> \<rparr>"
    unfolding edit_student_view_def assms(5) v
    using assms(2,3) c1 c2 by (simp add: u)
  with e c1 c2 show ?thesis by simp
qed

theorem edit_own_values_succeeds_witness:
  "demo_session ''user_id'' \<noteq> None \<and>
   r_method (demo_request POST ''/students/1/edit'' [] demo_jane_form) = POST \<and>
   validate_csrf (r_form (demo_request POST ''/students/1/edit'' [] demo_jane_form)
                    ''csrf_token'') demo_session \<and>
   fst (validate_student (r_form (demo_request POST ''/students/1/edit'' [] demo_jane_form))) = [] \<and>
   select_student demo_db 1 = Inr (Some demo_jane) \<and>
   d_student_id (normalized (r_form (demo_request POST ''/students/1/edit'' [] demo_jane_form)))
     = student_id demo_jane \<and>
   d_email (normalized (r_form (demo_request POST ''/students/1/edit'' [] demo_jane_form)))
     = email_text demo_jane \<and>
   distinct (map student_id (students demo_db)) \<and>
   distinct (filter (\<lambda>e. e \<noteq> []) (map email_text (students demo_db))) \<and>
   resp (edit_student 1 (demo_request POST ''/students/1/edit'' [] demo_jane_form)
           demo_session demo_db) = Redirect (Url_view_student 1) \<and>
   flashed (edit_student 1 (demo_request POST ''/students/1/edit'' [] demo_jane_form)
           demo_session demo_db) = [(''Student updated.'', ''success'')]"
proof -
  let ?req = "demo_request POST ''/students/1/edit'' [] demo_jane_form"
  have f: "r_form ?req = map_of demo_jane_form" by (simp add: demo_request_def)
  have h1: "demo_session ''user_id'' \<noteq> None" by (simp add: demo_session_def)
  have h2: "r_method ?req = POST" by (simp add: demo_request_def)
  have h3: "validate_csrf (r_form ?req ''csrf_token'') demo_session"
    by (simp add: demo_request_def demo_jane_form_def demo_session_def validate_csrf_def)
  have h4: "fst (validate_student (r_form ?req)) = []"
    by (simp add: f demo_jane_form_valid)
  have h5: "select_student demo_db 1 = Inr (Some demo_jane)"
    by (simp add: select_student_def sqlite_integer_def demo_db_def demo_jane_def)
  have h6: "d_student_id (normalized (r_form ?req)) = student_id demo_jane"
    by (simp add: f demo_jane_form_normalized demo_jane_def)
  have h7: "d_email (normalized (r_form ?req)) = email_text demo_jane"
    by (simp add: f demo_jane_form_normalized demo_jane_def email_text_def)
  have h8: "distinct (map student_id (students demo_db))" by (simp add: demo_db_def)
  have h9: "distinct (filter (\<lambda>e. e \<noteq> []) (map email_text (students demo_db)))"
    by (simp add: demo_db_def)
  from edit_own_values_succeeds [OF h1 h2 h3 h4 h5 h6 h7 h8 h9] h1 h2 h3 h4 h5 h6 h7 h8 h9
  show ?thesis by blast
qed

text \<open>
  Claim C4 as stated fails: the same submission from a session that is not logged in is
  redirected to the login page, and nothing is updated.
\<close>

theorem edit_own_values_counterexample:
  "validate_csrf (r_form (demo_request POST ''/students/1/edit'' [] demo_jane_form)
                    ''csrf_token'') [''_csrf_token'' \<mapsto> SStr ''c0ffee''] \<and>
   fst (validate_student (r_form (demo_request POST ''/students/1/edit'' [] demo_jane_form))) = [] \<and>
   select_student demo_db 1 = Inr (Some demo_jane) \<and>
   resp (edit_student 1 (demo_request POST ''/students/1/edit'' [] demo_jane_form)
           [''_csrf_token'' \<mapsto> SStr ''c0ffee''] demo_db)
     = Redirect (Url_login (Some ''/students/1/edit'')) \<and>
   flashed (edit_student 1 (demo_request POST ''/students/1/edit'' [] demo_jane_form)
           [''_csrf_token'' \<mapsto> SStr ''c0ffee''] demo_db) = [] \<and>
   db_after (edit_student 1 (demo_request POST ''/students/1/edit'' [] demo_jane_form)
           [''_csrf_token'' \<mapsto> SStr ''c0ffee''] demo_db) = demo_db"
proof -
  let ?req = "demo_request POST ''/students/1/edit'' [] demo_jane_form"
  have f: "r_form ?req = map_of demo_jane_form" by (simp add: demo_request_def)
  have a: "validate_csrf (r_form ?req ''csrf_token'') [''_csrf_token'' \<mapsto> SStr ''c0ffee'']"
    by (simp add: demo_request_def demo_jane_form_def validate_csrf_def)
  have b: "fst (validate_student (r_form ?req)) = []"
    by (simp add: f demo_jane_form_valid)
  have c: "select_student demo_db 1 = Inr (Some demo_jane)"
    by (simp add: select_student_def sqlite_integer_def demo_db_def demo_jane_def)
  have d: "edit_student 1 ?req [''_csrf_token'' \<mapsto> SStr ''c0ffee''] demo_db
      = \<lparr> resp = Redirect (Url_login (Some ''/students/1/edit'')), flashed = [],
          session_after = [''_csrf_token'' \<mapsto> SStr ''c0ffee''], db_after = demo_db \<rparr>"
    by (simp add: edit_student_def login_required_def demo_request_def)
  from a b c show ?thesis unfolding d by simp
qed

section \<open>Claim C5: the invariant of the students table\<close>

text \<open>
  Claim C5. In every database that the program reaches from a new file through
  \<open>init_db\<close> and requests to the create, edit and delete routes, the student_id values are
  pairwise distinct, the non-empty email values are pairwise distinct, and every row has a
  non-empty name, student_id and department. Each of the three routes preserves this
  invariant: whatever the request and the session, a table that satisfies it and whose
  rows have distinct primary keys, as every table of the engine has, satisfies both again
  after the request.
\<close>

theorem students_invariant_holds:
  "(reachable db \<longrightarrow> students_invariant db \<and> table_ok db) \<and>
   (table_ok db \<longrightarrow>
      students_invariant db \<and>
      table_ok (db_after (create_student now req sess db)) \<and>
      table_ok (db_after (edit_student i req sess db)) \<and>
      table_ok (db_after (delete_student i req sess db)))"
proof -
  have "table_ok d \<Longrightarrow> students_invariant d" for d by (simp add: table_ok_def)
  then show ?thesis
    using reachable_table_ok create_student_table_ok edit_student_table_ok
      delete_student_table_ok by blast
qed

text \<open>
  The database after the first student has been created in a new file is reachable and
  holds one row; the invariant holds in it and after a further edit of that row.
\<close>

theorem students_invariant_holds_witness:
  "reachable (db_after (create_student ''2024-01-01T10:00:00''
       (demo_request POST ''/students/new'' [] demo_jane_form) demo_session
       (init_db (\<lambda>p. ''h:'' @ p) ''2024-01-01T09:00:00'' None))) \<and>
   students (db_after (create_student ''2024-01-01T10:00:00''
       (demo_request POST ''/students/new'' [] demo_jane_form) demo_session
       (init_db (\<lambda>p. ''h:'' @ p) ''2024-01-01T09:00:00'' None))) = [demo_jane] \<and>
   students_invariant (db_after (create_student ''2024-01-01T10:00:00''
       (demo_request POST ''/students/new'' [] demo_jane_form) demo_session
       (init_db (\<lambda>p. ''h:'' @ p) ''2024-01-01T09:00:00'' None))) \<and>
   table_ok (db_after (edit_student 1
       (demo_request POST ''/students/1/edit'' []
          [(''csrf_token'', ''c0ffee''), (''name'', ''Jane Roe''), (''student_id'', ''S100''),
           (''department'', ''Math'')])
       demo_session
       (db_after (create_student ''2024-01-01T10:00:00''
          (demo_request POST ''/students/new'' [] demo_jane_form) demo_session
          (init_db (\<lambda>p. ''h:'' @ p) ''2024-01-01T09:00:00'' None)))))"
proof -
  let ?ini = "init_db (\<lambda>p. ''h:'' @ p) ''2024-01-01T09:00:00'' None"
  let ?req = "demo_request POST ''/students/new'' [] demo_jane_form"
  let ?db = "db_after (create_student ''2024-01-01T10:00:00'' ?req demo_session ?ini)"
  have r: "reachable ?db" by (intro reachable.create reachable.fresh)
  have f: "r_form ?req = map_of demo_jane_form" by (simp add: demo_request_def)
  have c: "validate_csrf (r_form ?req ''csrf_token'') demo_session"
    by (simp add: demo_request_def demo_jane_form_def demo_session_def validate_csrf_def)
  have m: "r_method ?req = POST" by (simp add: demo_request_def)
  have s0: "students ?ini = []" by (simp add: init_db_students)
  have q0: "students_seq ?ini = 0"
    by (simp add: init_db_def empty_db_def select_user_def Let_def)
  have s: "students ?db = [demo_jane]"
    using c m
    by (simp add: create_student_def login_required_def create_student_view_def f
        demo_jane_form_valid insert_student_def s0 [simplified] q0 [simplified] next_rowid_def sqlite_integer_def
        or_none_def demo_session_def demo_jane_def Let_def)
  from students_invariant_holds [where db = ?db] r s show ?thesis by blast
qed

section \<open>Deleting\<close>

text \<open>
  Claim C7, as the code has it. A delete request of a logged-in session (a POST with a
  valid CSRF token) for an id that fits the INTEGER of SQLite succeeds whether or not a
  student with that id exists: it redirects to the list and flashes the notice of
  deletion, and the rows with that id are gone. Deleting the same id a second time leaves
  the database that the first deletion left, and deleting an id that no student has
  leaves the database as it was.
\<close>

theorem delete_student_idempotent:
  assumes "r_method req = POST" and "sess ''user_id'' \<noteq> None"
    and "validate_csrf (r_form req ''csrf_token'') sess" and "sqlite_integer i"
  shows "resp (delete_student i req sess db) = Redirect Url_list_students \<and>
         flashed (delete_student i req sess db) = [(''Student deleted.'', ''info'')] \<and>
         session_after (delete_student i req sess db) = sess \<and>
         db_after (delete_student i req sess db)
           = db \<lparr> students := filter (\<lambda>r. s_id r \<noteq> i) (students db) \<rparr> \<and>
         resp (delete_student i req sess (db_after (delete_student i req sess db)))
           = Redirect Url_list_students \<and>
         db_after (delete_student i req sess (db_after (delete_student i req sess db)))
           = db_after (delete_student i req sess db) \<and>
         (select_student db i = Inr None \<longrightarrow> db_after (delete_student i req sess db) = db)"
  using assms
  by (simp add: delete_student_def login_required_def delete_student_view_def
      delete_row_def select_student_absent)

theorem delete_student_idempotent_witness:
  "r_method (demo_request POST ''/students/1/delete'' [] [(''csrf_token'', ''c0ffee'')]) = POST \<and>
   demo_session ''user_id'' \<noteq> None \<and>
   validate_csrf (r_form (demo_request POST ''/students/1/delete'' [] [(''csrf_token'', ''c0ffee'')])
                    ''csrf_token'') demo_session \<and>
   sqlite_integer 1 \<and>
   select_student empty_db 1 = Inr None \<and>
   students (db_after (delete_student 1
       (demo_request POST ''/students/1/delete'' [] [(''csrf_token'', ''c0ffee'')])
       demo_session demo_db)) = [] \<and>
   db_after (delete_student 1
       (demo_request POST ''/students/1/delete'' [] [(''csrf_token'', ''c0ffee'')]) demo_session
       (db_after (delete_student 1
          (demo_request POST ''/students/1/delete'' [] [(''csrf_token'', ''c0ffee'')])
          demo_session demo_db)))
   = db_after (delete_student 1
       (demo_request POST ''/students/1/delete'' [] [(''csrf_token'', ''c0ffee'')])
       demo_session demo_db) \<and>
   db_after (delete_student 1
       (demo_request POST ''/students/1/delete'' [] [(''csrf_token'', ''c0ffee'')])
       demo_session empty_db) = empty_db"
proof -
  let ?req = "demo_request POST ''/students/1/delete'' [] [(''csrf_token'', ''c0ffee'')]"
  have h1: "r_method ?req = POST" by (simp add: demo_request_def)
  have h2: "demo_session ''user_id'' \<noteq> None" by (simp add: demo_session_def)
  have h3: "validate_csrf (r_form ?req ''csrf_token'') demo_session"
    by (simp add: demo_request_def demo_session_def validate_csrf_def)
  have h4: "sqlite_integer 1" by (simp add: sqlite_integer_def)
  have h5: "select_student empty_db 1 = Inr None"
    by (simp add: select_student_def empty_db_def sqlite_integer_def)
  note a = delete_student_idempotent [where req = ?req and sess = demo_session and i = 1
      and db = demo_db, OF h1 h2 h3 h4]
  note b = delete_student_idempotent [where req = ?req and sess = demo_session and i = 1
      and db = empty_db, OF h1 h2 h3 h4]
  from a have e: "students (db_after (delete_student 1 ?req demo_session demo_db)) = []"
    by (simp add: demo_db_def demo_jane_def)
  from a b h1 h2 h3 h4 h5 e show ?thesis by blast
qed

text \<open>
  Claim C7 as stated fails: a delete request with a valid CSRF token from a session that
  is not logged in is redirected to the login page and deletes nothing; and for the id
  \<open>2^63\<close> the statement raises and the answer is 500.
\<close>

theorem delete_student_counterexample:
  "validate_csrf (r_form (demo_request POST ''/students/1/delete'' [] [(''csrf_token'', ''c0ffee'')])
                    ''csrf_token'') [''_csrf_token'' \<mapsto> SStr ''c0ffee''] \<and>
   resp (delete_student 1
       (demo_request POST ''/students/1/delete'' [] [(''csrf_token'', ''c0ffee'')])
       [''_csrf_token'' \<mapsto> SStr ''c0ffee''] demo_db)
     = Redirect (Url_login (Some ''/students/1/delete'')) \<and>
   flashed (delete_student 1
       (demo_request POST ''/students/1/delete'' [] [(''csrf_token'', ''c0ffee'')])
       [''_csrf_token'' \<mapsto> SStr ''c0ffee''] demo_db) = [] \<and>
   db_after (delete_student 1
       (demo_request POST ''/students/1/delete'' [] [(''csrf_token'', ''c0ffee'')])
       [''_csrf_token'' \<mapsto> SStr ''c0ffee''] demo_db) = demo_db \<and>
   validate_csrf (r_form (demo_request POST ''/students/9223372036854775808/delete'' []
                    [(''csrf_token'', ''c0ffee'')]) ''csrf_token'') demo_session \<and>
   demo_session ''user_id'' \<noteq> None \<and>
   resp (delete_student 9223372036854775808
       (demo_request POST ''/students/9223372036854775808/delete'' []
          [(''csrf_token'', ''c0ffee'')])
       demo_session demo_db) = Abort 500"
  by (simp add: demo_request_def demo_session_def delete_student_def login_required_def
      delete_student_view_def validate_csrf_def delete_row_def sqlite_integer_def
      server_error_def)

section \<open>The login guard\<close>

text \<open>
  Claim C8. A request to a login-protected route made by a session that holds no user id
  is answered by a redirect to the login page that carries the requested path, and has no
  other effect: nothing is flashed, and the session and the database stay as they were.
  This holds for the list and view routes (GET), the create and edit routes (GET and
  POST) and the delete route (POST). A successful login whose address carries that path
  in \<open>next\<close> then redirects to the path.
\<close>

theorem login_required_redirects:
  assumes "sess ''user_id'' = None" and "r_path req \<noteq> []"
  shows "login_required v req sess db
           = \<lparr> resp = Redirect (Url_login (Some (r_path req))), flashed = [],
               session_after = sess, db_after = db \<rparr> \<and>
         (r_method req = GET \<longrightarrow>
            list_students req sess db = login_required v req sess db \<and>
            view_student i req sess db = login_required v req sess db) \<and>
         create_student now req sess db = login_required v req sess db \<and>
         edit_student i req sess db = login_required v req sess db \<and>
         (r_method req = POST \<longrightarrow> delete_student i req sess db = login_required v req sess db) \<and>
         (\<forall>row. r_method lreq = POST \<and> r_args lreq ''next'' = Some (r_path req) \<and>
            select_user db' (strip (get_or_empty (r_form lreq) ''username'')) = Some row \<and>
            chk (password_hash row) (get_or_empty (r_form lreq) ''password'')
            \<longrightarrow> resp (login chk lreq sess' db') = Redirect (Location (r_path req)))"
  using assms
  by (simp add: login_required_def list_students_def create_student_def view_student_def
      edit_student_def delete_student_def login_def)

theorem login_required_redirects_witness:
  "Map.empty ''user_id'' = (None :: sval option) \<and>
   r_path (demo_request GET ''/students'' [] []) \<noteq> [] \<and>
   r_method (demo_request GET ''/students'' [] []) = GET \<and>
   list_students (demo_request GET ''/students'' [] []) Map.empty demo_db
     = \<lparr> resp = Redirect (Url_login (Some ''/students'')), flashed = [],
         session_after = Map.empty, db_after = demo_db \<rparr> \<and>
   r_method (demo_request POST ''/login'' [(''next'', ''/students'')]
               [(''username'', ''admin''), (''password'', ''admin123'')]) = POST \<and>
   r_args (demo_request POST ''/login'' [(''next'', ''/students'')]
               [(''username'', ''admin''), (''password'', ''admin123'')]) ''next''
     = Some ''/students'' \<and>
   select_user demo_db (strip (get_or_empty (r_form (demo_request POST ''/login''
        [(''next'', ''/students'')] [(''username'', ''admin''), (''password'', ''admin123'')]))
        ''username'')) = Some demo_admin \<and>
   demo_chk (password_hash demo_admin) (get_or_empty (r_form (demo_request POST ''/login''
        [(''next'', ''/students'')] [(''username'', ''admin''), (''password'', ''admin123'')]))
        ''password'') \<and>
   resp (login demo_chk (demo_request POST ''/login'' [(''next'', ''/students'')]
               [(''username'', ''admin''), (''password'', ''admin123'')]) Map.empty demo_db)
     = Redirect (Location ''/students'')"
proof -
  let ?req = "demo_request GET ''/students'' [] []"
  let ?lreq = "demo_request POST ''/login'' [(''next'', ''/students'')]
                 [(''username'', ''admin''), (''password'', ''admin123'')]"
  have p: "r_path ?req = ''/students''" by (simp add: demo_request_def)
  have h1: "Map.empty ''user_id'' = (None :: sval option)" by simp
  have h2: "r_path ?req \<noteq> []" by (simp add: demo_request_def)
  have h3: "r_method ?req = GET" by (simp add: demo_request_def)
  have g1: "r_method ?lreq = POST" by (simp add: demo_request_def)
  have g2: "r_args ?lreq ''next'' = Some (r_path ?req)" by (simp add: demo_request_def)
  have u: "strip (get_or_empty (r_form ?lreq) ''username'') = ''admin''"
    by (simp add: demo_request_def get_or_empty_def strip_def is_space_def whitespace_def)
  have g3: "select_user demo_db (strip (get_or_empty (r_form ?lreq) ''username'')) = Some demo_admin"
    unfolding u by (simp add: select_user_def demo_db_def demo_admin_def)
  have g4: "demo_chk (password_hash demo_admin) (get_or_empty (r_form ?lreq) ''password'')"
    by (simp add: demo_chk_def demo_admin_def demo_request_def get_or_empty_def)
  note t = login_required_redirects [where sess = Map.empty and req = ?req
      and v = list_students_view and db = demo_db and lreq = ?lreq and db' = demo_db
      and chk = demo_chk and sess' = Map.empty, OF h1 h2]
  from t h3 have a: "list_students ?req Map.empty demo_db
     = \<lparr> resp = Redirect (Url_login (Some (r_path ?req))), flashed = [],
         session_after = Map.empty, db_after = demo_db \<rparr>"
    by simp
  from t g1 g2 g3 g4 have b: "resp (login demo_chk ?lreq Map.empty demo_db)
     = Redirect (Location (r_path ?req))"
    by blast
  from a b h1 h2 h3 g1 g2 g3 g4 show ?thesis unfolding p by blast
qed

section \<open>Logging in\<close>

text \<open>
  Claim C9. Two failing login attempts, one with a username that no user has and one with
  the username of a user and a wrong password, have the same outcome: the login page is
  rendered with the one notice \<open>Invalid username or password.\<close>, and the session and the
  database stay as they were, so no identity is established. A successful login leaves a
  session that holds the user id and the username and nothing of the session before.
\<close>

theorem login_failures_alike:
  assumes "r_method req1 = POST" and "r_method req2 = POST" and "r_method req3 = POST"
  shows "(select_user db (strip (get_or_empty (r_form req1) ''username'')) = None \<and>
          select_user db (strip (get_or_empty (r_form req2) ''username'')) = Some row \<and>
          \<not> chk (password_hash row) (get_or_empty (r_form req2) ''password'')
          \<longrightarrow> login chk req1 sess db = login chk req2 sess db \<and>
              login chk req1 sess db
                = \<lparr> resp = Render ''auth/login.html'' [],
                    flashed = [(''Invalid username or password.'', ''danger'')],
                    session_after = sess, db_after = db \<rparr>) \<and>
         (select_user db (strip (get_or_empty (r_form req3) ''username'')) = Some row3 \<and>
          chk (password_hash row3) (get_or_empty (r_form req3) ''password'')
          \<longrightarrow> session_after (login chk req3 sess db)
                = [''user_id'' \<mapsto> SInt (u_id row3), ''username'' \<mapsto> SStr (username row3)] \<and>
              db_after (login chk req3 sess db) = db)"
  using assms by (simp add: login_def)

theorem login_failures_alike_witness:
  "r_method (demo_request POST ''/login'' [] [(''username'', ''mallory''), (''password'', ''x'')]) = POST \<and>
   r_method (demo_request POST ''/login'' [] [(''username'', ''admin''), (''password'', ''x'')]) = POST \<and>
   r_method (demo_request POST ''/login'' [] [(''username'', ''admin''), (''password'', ''admin123'')]) = POST \<and>
   select_user demo_db (strip (get_or_empty (r_form
      (demo_request POST ''/login'' [] [(''username'', ''mallory''), (''password'', ''x'')])) ''username''))
     = None \<and>
   select_user demo_db (strip (get_or_empty (r_form
      (demo_request POST ''/login'' [] [(''username'', ''admin''), (''password'', ''x'')])) ''username''))
     = Some demo_admin \<and>
   \<not> demo_chk (password_hash demo_admin) (get_or_empty (r_form
      (demo_request POST ''/login'' [] [(''username'', ''admin''), (''password'', ''x'')])) ''password'') \<and>
   select_user demo_db (strip (get_or_empty (r_form
      (demo_request POST ''/login'' [] [(''username'', ''admin''), (''password'', ''admin123'')])) ''username''))
     = Some demo_admin \<and>
   demo_chk (password_hash demo_admin) (get_or_empty (r_form
      (demo_request POST ''/login'' [] [(''username'', ''admin''), (''password'', ''admin123'')])) ''password'') \<and>
   login demo_chk (demo_request POST ''/login'' [] [(''username'', ''mallory''), (''password'', ''x'')])
      demo_session demo_db
     = login demo_chk (demo_request POST ''/login'' [] [(''username'', ''admin''), (''password'', ''x'')])
      demo_session demo_db \<and>
   session_after (login demo_chk
      (demo_request POST ''/login'' [] [(''username'', ''admin''), (''password'', ''admin123'')])
      demo_session demo_db)
     = [''user_id'' \<mapsto> SInt (u_id demo_admin), ''username'' \<mapsto> SStr (username demo_admin)]"
proof -
  let ?r1 = "demo_request POST ''/login'' [] [(''username'', ''mallory''), (''password'', ''x'')]"
  let ?r2 = "demo_request POST ''/login'' [] [(''username'', ''admin''), (''password'', ''x'')]"
  let ?r3 = "demo_request POST ''/login'' [] [(''username'', ''admin''), (''password'', ''admin123'')]"
  have m: "r_method ?r1 = POST" "r_method ?r2 = POST" "r_method ?r3 = POST"
    by (simp_all add: demo_request_def)
  have u1: "strip (get_or_empty (r_form ?r1) ''username'') = ''mallory''"
    by (simp add: demo_request_def get_or_empty_def strip_def is_space_def whitespace_def)
  have u2: "strip (get_or_empty (r_form ?r2) ''username'') = ''admin''"
    by (simp add: demo_request_def get_or_empty_def strip_def is_space_def whitespace_def)
  have u3: "strip (get_or_empty (r_form ?r3) ''username'') = ''admin''"
    by (simp add: demo_request_def get_or_empty_def strip_def is_space_def whitespace_def)
  have s1: "select_user demo_db (strip (get_or_empty (r_form ?r1) ''username'')) = None"
    unfolding u1 by (simp add: select_user_def demo_db_def demo_admin_def)
  have s2: "select_user demo_db (strip (get_or_empty (r_form ?r2) ''username'')) = Some demo_admin"
    unfolding u2 by (simp add: select_user_def demo_db_def demo_admin_def)
  have s3: "select_user demo_db (strip (get_or_empty (r_form ?r3) ''username'')) = Some demo_admin"
    unfolding u3 by (simp add: select_user_def demo_db_def demo_admin_def)
  have c2: "\<not> demo_chk (password_hash demo_admin) (get_or_empty (r_form ?r2) ''password'')"
    by (simp add: demo_chk_def demo_admin_def demo_request_def get_or_empty_def)
  have c3: "demo_chk (password_hash demo_admin) (get_or_empty (r_form ?r3) ''password'')"
    by (simp add: demo_chk_def demo_admin_def demo_request_def get_or_empty_def)
  from login_failures_alike [OF m, of demo_db demo_admin demo_chk demo_session demo_admin]
    m s1 s2 s3 c2 c3
  show ?thesis by blast
qed

section \<open>What an edit leaves alone\<close>

text \<open>
  Claim C10. A successful edit (one answered by the redirect to the student's page) leaves
  the users table and both row counters as they were and keeps the number and the order
  of the student rows. Every row with another id is unchanged; the row with the given id
  gets the five submitted columns and keeps its id and its creation time.
\<close>

theorem edit_student_frame:
  assumes "resp (edit_student i req sess db) = Redirect (Url_view_student i)"
  shows "users (db_after (edit_student i req sess db)) = users db \<and>
         users_seq (db_after (edit_student i req sess db)) = users_seq db \<and>
         students_seq (db_after (edit_student i req sess db)) = students_seq db \<and>
         length (students (db_after (edit_student i req sess db))) = length (students db) \<and>
         (\<forall>k < length (students db).
            (s_id (students db ! k) \<noteq> i \<longrightarrow>
               students (db_after (edit_student i req sess db)) ! k = students db ! k) \<and>
            (s_id (students db ! k) = i \<longrightarrow>
               students (db_after (edit_student i req sess db)) ! k
                 = set_columns (normalized (r_form req)) (students db ! k) \<and>
               s_id (students (db_after (edit_student i req sess db)) ! k) = i \<and>
               created_at (students (db_after (edit_student i req sess db)) ! k)
                 = created_at (students db ! k)))"
proof -
  from assms have l: "sess ''user_id'' \<noteq> None"
    by (auto simp: edit_student_def login_required_def split: if_splits)
  then have e: "edit_student i req sess db = edit_student_view i req sess db"
    by (auto simp: edit_student_def login_required_def)
  from edit_student_view_success [of i req sess db] assms
  have "update_student db i (normalized (r_form req))
          = Inr (db_after (edit_student i req sess db))"
    unfolding e by simp
  then have "db_after (edit_student i req sess db)
           = db \<lparr> students := map (\<lambda>r. if s_id r = i then set_columns (normalized (r_form req)) r
                                       else r) (students db) \<rparr>"
    by (rule update_student_Inr)
  then show ?thesis by (simp add: set_columns_def)
qed

theorem edit_student_frame_witness:
  "resp (edit_student 1
      (demo_request POST ''/students/1/edit'' []
         [(''csrf_token'', ''c0ffee''), (''name'', ''Jane Roe''), (''student_id'', ''S100''),
          (''department'', ''Math'')])
      demo_session demo_db) = Redirect (Url_view_student 1) \<and>
   users (db_after (edit_student 1
      (demo_request POST ''/students/1/edit'' []
         [(''csrf_token'', ''c0ffee''), (''name'', ''Jane Roe''), (''student_id'', ''S100''),
          (''department'', ''Math'')])
      demo_session demo_db)) = users demo_db \<and>
   length (students (db_after (edit_student 1
      (demo_request POST ''/students/1/edit'' []
         [(''csrf_token'', ''c0ffee''), (''name'', ''Jane Roe''), (''student_id'', ''S100''),
          (''department'', ''Math'')])
      demo_session demo_db))) = length (students demo_db)"
proof -
  let ?req = "demo_request POST ''/students/1/edit'' []
         [(''csrf_token'', ''c0ffee''), (''name'', ''Jane Roe''), (''student_id'', ''S100''),
          (''department'', ''Math'')]"
  have n: "normalized (r_form ?req)
           = \<lparr> d_name = ''Jane Roe'', d_student_id = ''S100'', d_department = ''Math'',
               d_email = [], d_phone = [] \<rparr>"
    by (simp add: normalized_def demo_request_def get_or_empty_def strip_def is_space_def
        whitespace_def)
  have v: "validate_student (r_form ?req)
           = ([], \<lparr> d_name = ''Jane Roe'', d_student_id = ''S100'', d_department = ''Math'',
               d_email = [], d_phone = [] \<rparr>)"
    unfolding validate_student_def n by (simp add: Let_def)
  have c: "validate_csrf (r_form ?req ''csrf_token'') demo_session"
    by (simp add: demo_request_def demo_session_def validate_csrf_def)
  have m: "r_method ?req = POST" by (simp add: demo_request_def)
  have h: "resp (edit_student 1 ?req demo_session demo_db) = Redirect (Url_view_student 1)"
    using c m
    by (simp add: edit_student_def login_required_def edit_student_view_def v
        select_student_def update_student_def sqlite_integer_def
        demo_session_def demo_db_def demo_jane_def)
  from edit_student_frame [OF h] h show ?thesis by blast
qed

end
